theory Spec2Isabelle
  imports Main "HOL-Library.Word" "HOL-Library.Sublist"
begin

section \<open>JavaScript values\<close>

text \<open>
  A JavaScript string is a sequence of UTF-16 code units: \<open>length\<close> counts code units and
  \<open>trim\<close> and the regular expression class \<open>\s\<close> look at single code units. The
  literals of \<^verbatim>\<open>server.js\<close> are ASCII apart from two symbols of the context note, so
  \<open>js\<close> embeds an ASCII literal.
\<close>

type_synonym jstring = "16 word list"

definition js :: "string \<Rightarrow> jstring" where
  "js s = map of_char s"

text \<open>
  The values the handlers see: what \<^verbatim>\<open>JSON.parse\<close> produces, and \<^verbatim>\<open>undefined\<close> for a
  property that is not there. Numbers are the integer-valued ones; no operation of
  \<^verbatim>\<open>server.js\<close> computes with a number. An object is the list of its own properties, the
  first binding of a key being its value.
\<close>

datatype jsval =
    JUndef
  | JNull
  | JBool bool
  | JNum int
  | JStr jstring
  | JArr "jsval list"
  | JObj "(jstring \<times> jsval) list"

datatype js_error =
    Error jstring
  | TypeError jstring
  | SyntaxError jstring

fun message :: "js_error \<Rightarrow> jstring" where
  "message (Error m) = m"
| "message (TypeError m) = m"
| "message (SyntaxError m) = m"

text \<open>\<^verbatim>\<open>if (v)\<close>, \<^verbatim>\<open>!v\<close>, \<^verbatim>\<open>a || b\<close>, \<^verbatim>\<open>c ? a : b\<close>: ToBoolean.\<close>

fun truthy :: "jsval \<Rightarrow> bool" where
  "truthy JUndef = False"
| "truthy JNull = False"
| "truthy (JBool b) = b"
| "truthy (JNum n) = (n \<noteq> 0)"
| "truthy (JStr s) = (s \<noteq> [])"
| "truthy (JArr xs) = True"
| "truthy (JObj fs) = True"

definition js_or :: "jsval \<Rightarrow> jsval \<Rightarrow> jsval" where
  "js_or a b = (if truthy a then a else b)"

text \<open>
  \<^verbatim>\<open>a === b\<close>. Arrays and objects are compared by identity; two values that reach a
  handler from different JSON texts are never the same object.
\<close>

fun strict_eq :: "jsval \<Rightarrow> jsval \<Rightarrow> bool" where
  "strict_eq JUndef JUndef = True"
| "strict_eq JNull JNull = True"
| "strict_eq (JBool a) (JBool b) = (a = b)"
| "strict_eq (JNum a) (JNum b) = (a = b)"
| "strict_eq (JStr a) (JStr b) = (a = b)"
| "strict_eq a b = False"

fun type_name :: "jsval \<Rightarrow> string" where
  "type_name JNull = ''null''"
| "type_name v = ''undefined''"

definition cannot_read :: "jsval \<Rightarrow> jstring \<Rightarrow> js_error" where
  "cannot_read v k =
     TypeError (js ''Cannot read properties of '' @ js (type_name v) @
                js '' (reading '' @ [0x27] @ k @ [0x27] @ js '')'')"

text \<open>
  \<^verbatim>\<open>v.k\<close> for the property names \<^verbatim>\<open>server.js\<close> reads. Reading a property of
  \<^verbatim>\<open>undefined\<close> or \<^verbatim>\<open>null\<close> throws; \<^verbatim>\<open>length\<close> is the one name among them that an
  array or a string has without it being an own property of a parsed object.
\<close>

fun get_prop :: "jsval \<Rightarrow> jstring \<Rightarrow> js_error + jsval" where
  "get_prop JUndef k = Inl (cannot_read JUndef k)"
| "get_prop JNull k = Inl (cannot_read JNull k)"
| "get_prop (JObj fs) k = Inr (case map_of fs k of Some v \<Rightarrow> v | None \<Rightarrow> JUndef)"
| "get_prop (JArr xs) k = Inr (if k = js ''length'' then JNum (int (length xs)) else JUndef)"
| "get_prop (JStr s) k = Inr (if k = js ''length'' then JNum (int (length s)) else JUndef)"
| "get_prop v k = Inr JUndef"

text \<open>\<^verbatim>\<open>v[0]\<close>.\<close>

fun get_first :: "jsval \<Rightarrow> js_error + jsval" where
  "get_first JUndef = Inl (cannot_read JUndef (js ''0''))"
| "get_first JNull = Inl (cannot_read JNull (js ''0''))"
| "get_first (JArr xs) = Inr (case xs of [] \<Rightarrow> JUndef | x # _ \<Rightarrow> x)"
| "get_first (JStr s) = Inr (case s of [] \<Rightarrow> JUndef | c # _ \<Rightarrow> JStr [c])"
| "get_first (JObj fs) = Inr (case map_of fs (js ''0'') of Some v \<Rightarrow> v | None \<Rightarrow> JUndef)"
| "get_first v = Inr JUndef"

text \<open>\<^verbatim>\<open>v?.k\<close>.\<close>

definition get_prop_opt :: "jsval \<Rightarrow> jstring \<Rightarrow> js_error + jsval" where
  "get_prop_opt v k = (if v = JUndef \<or> v = JNull then Inr JUndef else get_prop v k)"

definition bind_err :: "js_error + 'a \<Rightarrow> ('a \<Rightarrow> js_error + 'b) \<Rightarrow> js_error + 'b" where
  "bind_err m f = (case m of Inl e \<Rightarrow> Inl e | Inr a \<Rightarrow> f a)"

subsection \<open>Template literals: ToString\<close>

definition digit :: "nat \<Rightarrow> 16 word" where
  "digit d = of_nat (48 + d)"

fun nat_digits :: "nat \<Rightarrow> jstring" where
  "nat_digits n = (if n < 10 then [digit n] else nat_digits (n div 10) @ [digit (n mod 10)])"

declare nat_digits.simps [simp del]

definition int_digits :: "int \<Rightarrow> jstring" where
  "int_digits i = (if i < 0 then js ''-'' @ nat_digits (nat (- i)) else nat_digits (nat i))"

fun join_comma :: "jstring list \<Rightarrow> jstring" where
  "join_comma [] = []"
| "join_comma [s] = s"
| "join_comma (s # t # ss) = s @ js '','' @ join_comma (t # ss)"

text \<open>
  \<^verbatim>\<open>`${v}`\<close>. An array is joined with commas, \<^verbatim>\<open>null\<close> and \<^verbatim>\<open>undefined\<close> elements
  giving the empty string; a plain object gives \<^verbatim>\<open>[object Object]\<close>. A number is written
  with all its digits, which is what JavaScript does for an integer of magnitude below
  \<open>10\<^sup>2\<^sup>1\<close>; from there on JavaScript writes an exponent (\<^verbatim>\<open>1e+21\<close>), which the model does
  not. No length of an array or of a string reaches that bound.
\<close>

fun to_string :: "jsval \<Rightarrow> jstring" where
  "to_string JUndef = js ''undefined''"
| "to_string JNull = js ''null''"
| "to_string (JBool b) = (if b then js ''true'' else js ''false'')"
| "to_string (JNum n) = int_digits n"
| "to_string (JStr s) = s"
| "to_string (JArr xs) =
     join_comma (map (\<lambda>x. if x = JUndef \<or> x = JNull then [] else to_string x) xs)"
| "to_string (JObj fs) = js ''[object Object]''"

section \<open>The platform and the network\<close>

text \<open>
  Built-in functions of the JavaScript engine that \<^verbatim>\<open>server.js\<close> calls and that are not
  code of the repository. They are parameters of every definition below, so a theorem
  holds whatever they compute. \<open>Date_value v\<close> is the time value of \<^verbatim>\<open>new Date(v)\<close> in
  milliseconds since the epoch, \<open>None\<close> when it is \<^verbatim>\<open>NaN\<close>; \<open>Date_now\<close> is the time value
  of \<^verbatim>\<open>new Date()\<close>.
\<close>

record platform =
  JSON_parse :: "jstring \<Rightarrow> js_error + jsval"
  JSON_stringify :: "jsval \<Rightarrow> jstring"
  Date_value :: "jsval \<Rightarrow> int option"
  Date_now :: int

text \<open>\<^verbatim>\<open>process.env\<close>: a variable is a string or is not set.\<close>

record env =
  ANTHROPIC_API_KEY :: "jstring option"
  MONDAY_API_TOKEN :: "jstring option"
  MONDAY_DEFAULT_BOARD_ID :: "jstring option"
  PORT :: "jstring option"

definition env_val :: "jstring option \<Rightarrow> jsval" where
  "env_val x = (case x of None \<Rightarrow> JUndef | Some s \<Rightarrow> JStr s)"

text \<open>
  A call that leaves the process: \<^verbatim>\<open>fetch(url, {method: 'POST', headers, body})\<close> or
  \<^verbatim>\<open>anthropic.messages.create(params)\<close>. The peer answers with a reply and moves to a
  new state of its own; \<open>Rejected\<close> is a promise of the call itself that rejects,
  \<open>BodyUnreadable\<close> is \<^verbatim>\<open>response.json()\<close> rejecting, \<open>Replied v\<close> is the value the
  caller awaits. Every call is appended to a log, so that a theorem can say which
  calls a handler makes.
\<close>

datatype call =
    Fetch jstring "(jstring \<times> jsval) list" jstring
  | MessagesCreate jsval

datatype reply =
    Rejected js_error
  | BodyUnreadable js_error
  | Replied jsval

type_synonym 'w transport = "'w \<Rightarrow> call \<Rightarrow> reply \<times> 'w"

type_synonym 'w net = "'w \<times> call list"

definition perform :: "'w transport \<Rightarrow> call \<Rightarrow> 'w net \<Rightarrow> reply \<times> 'w net" where
  "perform tr c st = (case tr (fst st) c of (r, w') \<Rightarrow> (r, (w', snd st @ [c])))"

fun is_fetch :: "call \<Rightarrow> bool" where
  "is_fetch (Fetch u h b) = True"
| "is_fetch (MessagesCreate p) = False"

section \<open>Monday.com API helper\<close>

definition monday_url :: jstring where
  "monday_url = js ''https://api.monday.com/v2''"

definition monday_headers :: "env \<Rightarrow> (jstring \<times> jsval) list" where
  "monday_headers ev =
     [(js ''Content-Type'', JStr (js ''application/json'')),
      (js ''Authorization'', env_val (MONDAY_API_TOKEN ev)),
      (js ''API-Version'', JStr (js ''2024-01''))]"

definition monday_call :: "platform \<Rightarrow> env \<Rightarrow> jstring \<Rightarrow> jsval \<Rightarrow> call" where
  "monday_call pf ev query variables =
     Fetch monday_url (monday_headers ev)
       (JSON_stringify pf (JObj [(js ''query'', JStr query), (js ''variables'', variables)]))"

text \<open>
  \<^verbatim>\<open>async function mondayRequest(query, variables = {})\<close>: one \<^verbatim>\<open>fetch\<close>, then
  \<^verbatim>\<open>response.json()\<close>, then \<^verbatim>\<open>if (data.errors) throw new Error(...)\<close>.
\<close>

definition mondayRequest ::
  "platform \<Rightarrow> env \<Rightarrow> 'w transport \<Rightarrow> jstring \<Rightarrow> jsval \<Rightarrow> 'w net \<Rightarrow> (js_error + jsval) \<times> 'w net"
where
  "mondayRequest pf ev tr query variables st =
     (let vars = (if variables = JUndef then JObj [] else variables) in
      case perform tr (monday_call pf ev query vars) st of
        (Rejected e, st') \<Rightarrow> (Inl e, st')
      | (BodyUnreadable e, st') \<Rightarrow> (Inl e, st')
      | (Replied data, st') \<Rightarrow>
          (case get_prop data (js ''errors'') of
             Inl e \<Rightarrow> (Inl e, st')
           | Inr errs \<Rightarrow>
               if truthy errs
               then (Inl (Error (js ''Monday.com API Error: '' @ JSON_stringify pf errs)), st')
               else (Inr data, st')))"

text \<open>The queries, as the template literals of \<^verbatim>\<open>server.js\<close> spell them.\<close>

definition boards_query :: jstring where
  \<open>boards_query =
     js ''\<newline>'' @
     js ''    query {\<newline>'' @
     js ''      boards(limit: 50) {\<newline>'' @
     js ''        id\<newline>'' @
     js ''        name\<newline>'' @
     js ''        groups {\<newline>'' @
     js ''          id\<newline>'' @
     js ''          title\<newline>'' @
     js ''        }\<newline>'' @
     js ''        columns {\<newline>'' @
     js ''          id\<newline>'' @
     js ''          title\<newline>'' @
     js ''          type\<newline>'' @
     js ''        }\<newline>'' @
     js ''      }\<newline>'' @
     js ''    }\<newline>'' @
     js ''  ''\<close>

definition users_query :: jstring where
  \<open>users_query =
     js ''\<newline>'' @
     js ''    query {\<newline>'' @
     js ''      users {\<newline>'' @
     js ''        id\<newline>'' @
     js ''        name\<newline>'' @
     js ''        email\<newline>'' @
     js ''      }\<newline>'' @
     js ''    }\<newline>'' @
     js ''  ''\<close>

definition create_item_query :: jstring where
  \<open>create_item_query =
     js ''\<newline>'' @
     js ''    mutation ($boardId: ID!, $groupId: String!, $itemName: String!, $columnValues: JSON) {\<newline>'' @
     js ''      create_item(\<newline>'' @
     js ''        board_id: $boardId\<newline>'' @
     js ''        group_id: $groupId\<newline>'' @
     js ''        item_name: $itemName\<newline>'' @
     js ''        column_values: $columnValues\<newline>'' @
     js ''      ) {\<newline>'' @
     js ''        id\<newline>'' @
     js ''        name\<newline>'' @
     js ''      }\<newline>'' @
     js ''    }\<newline>'' @
     js ''  ''\<close>

definition create_update_query :: jstring where
  \<open>create_update_query =
     js ''\<newline>'' @
     js ''    mutation ($itemId: ID!, $body: String!) {\<newline>'' @
     js ''      create_update(item_id: $itemId, body: $body) {\<newline>'' @
     js ''        id\<newline>'' @
     js ''      }\<newline>'' @
     js ''    }\<newline>'' @
     js ''  ''\<close>

text \<open>\<^verbatim>\<open>result.data.k\<close> of what \<open>mondayRequest\<close> returned.\<close>

definition data_field ::
  "jstring \<Rightarrow> (js_error + jsval) \<times> 'w net \<Rightarrow> (js_error + jsval) \<times> 'w net"
where
  "data_field k r =
     (case r of
        (Inl e, st') \<Rightarrow> (Inl e, st')
      | (Inr result, st') \<Rightarrow>
          (bind_err (get_prop result (js ''data'')) (\<lambda>d. get_prop d k), st'))"

definition getBoards ::
  "platform \<Rightarrow> env \<Rightarrow> 'w transport \<Rightarrow> 'w net \<Rightarrow> (js_error + jsval) \<times> 'w net"
where
  "getBoards pf ev tr st =
     data_field (js ''boards'') (mondayRequest pf ev tr boards_query JUndef st)"

definition getUsers ::
  "platform \<Rightarrow> env \<Rightarrow> 'w transport \<Rightarrow> 'w net \<Rightarrow> (js_error + jsval) \<times> 'w net"
where
  "getUsers pf ev tr st =
     data_field (js ''users'') (mondayRequest pf ev tr users_query JUndef st)"

definition create_item_variables :: "platform \<Rightarrow> jsval \<Rightarrow> jsval \<Rightarrow> jsval \<Rightarrow> jsval \<Rightarrow> jsval" where
  "create_item_variables pf boardId groupId itemName columnValues =
     JObj [(js ''boardId'', boardId),
           (js ''groupId'', groupId),
           (js ''itemName'', itemName),
           (js ''columnValues'',
              JStr (JSON_stringify pf (if columnValues = JUndef then JObj [] else columnValues)))]"

definition createMondayItem ::
  "platform \<Rightarrow> env \<Rightarrow> 'w transport \<Rightarrow> jsval \<Rightarrow> jsval \<Rightarrow> jsval \<Rightarrow> jsval \<Rightarrow> 'w net
     \<Rightarrow> (js_error + jsval) \<times> 'w net"
where
  "createMondayItem pf ev tr boardId groupId itemName columnValues st =
     data_field (js ''create_item'')
       (mondayRequest pf ev tr create_item_query
          (create_item_variables pf boardId groupId itemName columnValues) st)"

definition create_update_variables :: "jsval \<Rightarrow> jsval \<Rightarrow> jsval" where
  "create_update_variables itemId body = JObj [(js ''itemId'', itemId), (js ''body'', body)]"

definition addItemUpdate ::
  "platform \<Rightarrow> env \<Rightarrow> 'w transport \<Rightarrow> jsval \<Rightarrow> jsval \<Rightarrow> 'w net \<Rightarrow> (js_error + jsval) \<times> 'w net"
where
  "addItemUpdate pf ev tr itemId body st =
     data_field (js ''create_update'')
       (mondayRequest pf ev tr create_update_query (create_update_variables itemId body) st)"

section \<open>Strings, the code fence and the date\<close>

text \<open>
  White space and line terminators of ECMAScript: what \<^verbatim>\<open>String.prototype.trim\<close>
  removes and what \<^verbatim>\<open>\s\<close> matches.
\<close>

definition is_space :: "16 word \<Rightarrow> bool" where
  "is_space c =
     (c \<in> set [0x09, 0x0A, 0x0B, 0x0C, 0x0D, 0x20, 0xA0, 0x1680, 0x2028, 0x2029,
                0x202F, 0x205F, 0x3000, 0xFEFF]
      \<or> (0x2000 \<le> c \<and> c \<le> 0x200A))"

definition trim :: "jstring \<Rightarrow> jstring" where
  "trim s = rev (dropWhile is_space (rev (dropWhile is_space s)))"

definition fence :: jstring where
  "fence = js ''```''"

text \<open>\<^verbatim>\<open>s.includes(pat)\<close>.\<close>

fun str_includes :: "jstring \<Rightarrow> jstring \<Rightarrow> bool" where
  "str_includes [] pat = (pat = [])"
| "str_includes (c # cs) pat = (prefix pat (c # cs) \<or> str_includes cs pat)"

text \<open>
  \<^verbatim>\<open>content.match(/```(?:json)?\s*([\s\S]*?)```/)\<close>, as the backtracking matcher of
  ECMAScript runs it, one function for each part of the pattern; the result is the
  capture \<^verbatim>\<open>match[1]\<close>, \<open>None\<close> when the pattern matches nowhere.

  \<open>lazy_until_fence\<close> is \<^verbatim>\<open>([\s\S]*?)```\<close>: the capture grows by one code unit at a
  time until the closing fence follows.
\<close>

fun lazy_until_fence :: "jstring \<Rightarrow> jstring option" where
  "lazy_until_fence [] = None"
| "lazy_until_fence (c # cs) =
     (if prefix fence (c # cs) then Some []
      else map_option (\<lambda>g. c # g) (lazy_until_fence cs))"

text \<open>
  \<^verbatim>\<open>\s*\<close> is greedy: it takes one more white space first and gives it back when the
  rest of the pattern fails.
\<close>

fun spaces_then_capture :: "jstring \<Rightarrow> jstring option" where
  "spaces_then_capture [] = lazy_until_fence []"
| "spaces_then_capture (c # cs) =
     (if is_space c
      then (case spaces_then_capture cs of
              Some g \<Rightarrow> Some g
            | None \<Rightarrow> lazy_until_fence (c # cs))
      else lazy_until_fence (c # cs))"

text \<open>\<^verbatim>\<open>(?:json)?\<close> is greedy as well: with the tag first, without it second.\<close>

definition tag_then_capture :: "jstring \<Rightarrow> jstring option" where
  "tag_then_capture r =
     (if prefix (js ''json'') r
      then (case spaces_then_capture (drop 4 r) of
              Some g \<Rightarrow> Some g
            | None \<Rightarrow> spaces_then_capture r)
      else spaces_then_capture r)"

text \<open>The pattern is tried at every position from the left.\<close>

fun fence_match :: "jstring \<Rightarrow> jstring option" where
  "fence_match [] = None"
| "fence_match (c # cs) =
     (case (if prefix fence (c # cs) then tag_then_capture (drop 3 (c # cs)) else None) of
        Some g \<Rightarrow> Some g
      | None \<Rightarrow> fence_match cs)"

text \<open>
  Lines 177 to 183 of \<^verbatim>\<open>server.js\<close>: the text that is handed to \<^verbatim>\<open>JSON.parse\<close>.
\<close>

definition json_text :: "jstring \<Rightarrow> jstring" where
  "json_text content =
     trim (if str_includes content fence
           then (case fence_match content of Some g \<Rightarrow> g | None \<Rightarrow> content)
           else content)"

text \<open>
  \<^verbatim>\<open>toISOString()\<close> of a valid time value, by the day and time arithmetic of
  ECMAScript (days are counted from 1970-01-01, the calendar is the proleptic
  Gregorian one, the time zone is UTC).
\<close>

definition ymd_from_day :: "int \<Rightarrow> int \<times> int \<times> int" where
  "ymd_from_day d =
     (let z = d + 719468;
          era = z div 146097;
          doe = z - era * 146097;
          yoe = (doe - doe div 1460 + doe div 36524 - doe div 146096) div 365;
          doy = doe - (365 * yoe + yoe div 4 - yoe div 100);
          mp = (5 * doy + 2) div 153;
          dd = doy - (153 * mp + 2) div 5 + 1;
          m = (if mp < 10 then mp + 3 else mp - 9);
          y = yoe + era * 400 + (if m \<le> 2 then 1 else 0)
      in (y, m, dd))"

definition pad :: "nat \<Rightarrow> nat \<Rightarrow> jstring" where
  "pad w n = replicate (w - length (nat_digits n)) (digit 0) @ nat_digits n"

definition iso_year :: "int \<Rightarrow> jstring" where
  "iso_year y =
     (if 0 \<le> y \<and> y \<le> 9999 then pad 4 (nat y)
      else (if y < 0 then js ''-'' else js ''+'') @ pad 6 (nat \<bar>y\<bar>))"

definition iso_date :: "int \<Rightarrow> jstring" where
  "iso_date t =
     (case ymd_from_day (t div 86400000) of
        (y, m, d) \<Rightarrow> iso_year y @ js ''-'' @ pad 2 (nat m) @ js ''-'' @ pad 2 (nat d))"

definition iso_time :: "int \<Rightarrow> jstring" where
  "iso_time t =
     (let ms = nat (t mod 86400000) in
      pad 2 (ms div 3600000) @ js '':'' @ pad 2 (ms div 60000 mod 60) @ js '':'' @
      pad 2 (ms div 1000 mod 60) @ js ''.'' @ pad 3 (ms mod 1000))"

definition toISOString :: "int \<Rightarrow> jstring" where
  "toISOString t = iso_date t @ js ''T'' @ iso_time t @ js ''Z''"

text \<open>\<^verbatim>\<open>s.split('T')[0]\<close>: the text before the first \<^verbatim>\<open>T\<close>, all of it when there is none.\<close>

definition split_T_first :: "jstring \<Rightarrow> jstring" where
  "split_T_first s = takeWhile (\<lambda>c. c \<noteq> 0x54) s"









section \<open>Extraction\<close>

definition EXTRACTION_PROMPT :: jstring where
  \<open>EXTRACTION_PROMPT =
     js ''You are an expert meeting analyst. Extract ALL action items from the meeting notes.\<newline>'' @
     js ''\<newline>'' @
     js ''## What to Extract:\<newline>'' @
     js ''- Explicit assignments: "John will...", "Sarah to follow up on..."\<newline>'' @
     js ''- Implied tasks: "We need to...", "Someone should..."\<newline>'' @
     js ''- Decisions requiring action\<newline>'' @
     js ''- Follow-up items and deadlines\<newline>'' @
     js ''\<newline>'' @
     js ''## For Each Action Item Extract:\<newline>'' @
     js ''1. task_title: Clear, actionable title (verb + object format)\<newline>'' @
     js ''2. description: Full context from the meeting (2-3 sentences max)\<newline>'' @
     js ''3. assignee: Name of person responsible (null if unspecified)\<newline>'' @
     js ''4. deadline: ISO date if mentioned, or relative term ("end of week")\<newline>'' @
     js ''5. priority: "high", "medium", or "low" based on urgency language\<newline>'' @
     js ''6. project_context: Project/initiative name if mentioned\<newline>'' @
     js ''\<newline>'' @
     js ''## Priority Rules:\<newline>'' @
     js ''- HIGH: "urgent", "ASAP", "blocking", "critical", deadline within 3 days\<newline>'' @
     js ''- MEDIUM: Has deadline, mentioned multiple times, tied to deliverable\<newline>'' @
     js ''- LOW: "when you get a chance", "nice to have", no deadline\<newline>'' @
     js ''\<newline>'' @
     js ''## Output Format (JSON only, no markdown):\<newline>'' @
     js ''{\<newline>'' @
     js ''  "meeting_summary": "One sentence summary",\<newline>'' @
     js ''  "action_items": [\<newline>'' @
     js ''    {\<newline>'' @
     js ''      "task_title": "Schedule Q1 planning session",\<newline>'' @
     js ''      "description": "Need to book a 2-hour block for leadership team",\<newline>'' @
     js ''      "assignee": "Sarah",\<newline>'' @
     js ''      "deadline": "2025-01-20",\<newline>'' @
     js ''      "priority": "high",\<newline>'' @
     js ''      "project_context": "Q1 Planning"\<newline>'' @
     js ''    }\<newline>'' @
     js ''  ]\<newline>'' @
     js ''}''\<close>

definition extraction_content :: "platform \<Rightarrow> jsval \<Rightarrow> jsval \<Rightarrow> jstring" where
  "extraction_content pf meetingNotes meetingTitle =
     EXTRACTION_PROMPT @ js ''\<newline>\<newline>Meeting Title: '' @
     to_string (js_or meetingTitle (JStr (js ''Untitled Meeting''))) @
     js ''\<newline>Meeting Date: '' @ split_T_first (toISOString (Date_now pf)) @
     js ''\<newline>\<newline>Meeting Notes:\<newline>'' @ to_string meetingNotes"

definition extraction_params :: "platform \<Rightarrow> jsval \<Rightarrow> jsval \<Rightarrow> jsval" where
  "extraction_params pf meetingNotes meetingTitle =
     JObj [(js ''model'', JStr (js ''claude-sonnet-4-20250514'')),
           (js ''max_tokens'', JNum 4096),
           (js ''messages'',
              JArr [JObj [(js ''role'', JStr (js ''user'')),
                          (js ''content'',
                             JStr (extraction_content pf meetingNotes meetingTitle))]])]"

text \<open>
  Lines 177 to 183 on the value of \<^verbatim>\<open>response.content[0].text\<close>. Only a string has the
  three methods \<^verbatim>\<open>includes\<close>, \<^verbatim>\<open>match\<close> and \<^verbatim>\<open>trim\<close>; an array has the first one.
\<close>

definition parse_content :: "platform \<Rightarrow> jsval \<Rightarrow> js_error + jsval" where
  "parse_content pf content =
     (case content of
        JStr s \<Rightarrow> JSON_parse pf (json_text s)
      | JUndef \<Rightarrow> Inl (cannot_read JUndef (js ''includes''))
      | JNull \<Rightarrow> Inl (cannot_read JNull (js ''includes''))
      | JArr xs \<Rightarrow>
          Inl (TypeError (if JStr fence \<in> set xs then js ''content.match is not a function''
                          else js ''jsonStr.trim is not a function''))
      | _ \<Rightarrow> Inl (TypeError (js ''content.includes is not a function'')))"

definition extractActionItems ::
  "platform \<Rightarrow> 'w transport \<Rightarrow> jsval \<Rightarrow> jsval \<Rightarrow> 'w net \<Rightarrow> (js_error + jsval) \<times> 'w net"
where
  "extractActionItems pf tr meetingNotes meetingTitle st =
     (let title = (if meetingTitle = JUndef then JStr [] else meetingTitle) in
      case perform tr (MessagesCreate (extraction_params pf meetingNotes title)) st of
        (Rejected e, st') \<Rightarrow> (Inl e, st')
      | (BodyUnreadable e, st') \<Rightarrow> (Inl e, st')
      | (Replied response, st') \<Rightarrow>
          (bind_err (get_prop response (js ''content'')) (\<lambda>blocks.
           bind_err (get_first blocks) (\<lambda>block.
           bind_err (get_prop block (js ''text'')) (parse_content pf))), st'))"

section \<open>Routes\<close>

record response =
  status :: nat
  body :: jsval

definition ok :: "(jstring \<times> jsval) list \<Rightarrow> response" where
  "ok props = \<lparr>status = 200, body = JObj props\<rparr>"

definition failure :: "nat \<Rightarrow> jstring \<Rightarrow> response" where
  "failure code msg =
     \<lparr>status = code, body = JObj [(js ''success'', JBool False), (js ''error'', JStr msg)]\<rparr>"

text \<open>
  \<^verbatim>\<open>try { ... } catch (error) { res.status(500).json({success: false, error: error.message}) }\<close>
  around the body of a route.
\<close>

definition catch_500 :: "(js_error + response) \<times> 'w net \<Rightarrow> response \<times> 'w net" where
  "catch_500 r =
     (case r of
        (Inl e, st') \<Rightarrow> (failure 500 (message e), st')
      | (Inr res, st') \<Rightarrow> (res, st'))"

definition bind_eff ::
  "(js_error + 'a) \<times> 's \<Rightarrow> ('a \<Rightarrow> 's \<Rightarrow> (js_error + 'b) \<times> 's) \<Rightarrow> (js_error + 'b) \<times> 's"
where
  "bind_eff r f = (case r of (Inl e, s) \<Rightarrow> (Inl e, s) | (Inr a, s) \<Rightarrow> f a s)"

text \<open>\<^verbatim>\<open>const { k, ... } = req.body\<close>: it throws when there is no body to take apart.\<close>

definition destructure :: "jsval \<Rightarrow> jstring \<Rightarrow> js_error + jsval" where
  "destructure b k =
     (if b = JUndef \<or> b = JNull
      then Inl (TypeError (js ''Cannot destructure property '' @ [0x27] @ k @ [0x27] @
                           js '' of '' @ [0x27] @ js ''req.body'' @ [0x27] @
                           js '' as it is '' @ js (type_name b) @ js ''.''))
      else get_prop b k)"

text \<open>\<^verbatim>\<open>!meetingNotes || meetingNotes.trim().length < 50\<close>.\<close>

definition notes_too_short :: "jsval \<Rightarrow> js_error + bool" where
  "notes_too_short meetingNotes =
     (if \<not> truthy meetingNotes then Inr True
      else case meetingNotes of
             JStr s \<Rightarrow> Inr (length (trim s) < 50)
           | _ \<Rightarrow> Inl (TypeError (js ''meetingNotes.trim is not a function'')))"

definition notes_message :: jstring where
  "notes_message = js ''Meeting notes must be at least 50 characters''"






definition set_prop :: "(jstring \<times> jsval) list \<Rightarrow> jstring \<Rightarrow> jsval \<Rightarrow> (jstring \<times> jsval) list" where
  "set_prop fs k v =
     (if k \<in> fst ` set fs then map (\<lambda>(k', x). if k' = k then (k', v) else (k', x)) fs
      else fs @ [(k, v)])"


text \<open>
  \<^verbatim>\<open>obj[k] = v\<close> on a plain object that has no own property \<^verbatim>\<open>__proto__\<close>: for the key
  \<^verbatim>\<open>__proto__\<close> the assignment runs the setter of \<^verbatim>\<open>Object.prototype\<close>, which changes the
  prototype of the object and gives it no own property; every other key becomes an own
  property.
\<close>

definition assign_prop :: "(jstring \<times> jsval) list \<Rightarrow> jstring \<Rightarrow> jsval \<Rightarrow> (jstring \<times> jsval) list" where
  "assign_prop fs k v = (if k = js ''__proto__'' then fs else set_prop fs k v)"


subsection \<open>Create tasks in Monday.com\<close>

text \<open>
  \<^verbatim>\<open>xs.find(p)\<close>: the first element on which the callback is true. The callback of
  \<^verbatim>\<open>server.js\<close> reads a property of the element, so it can throw.
\<close>

fun find_first :: "(jsval \<Rightarrow> js_error + bool) \<Rightarrow> jsval list \<Rightarrow> js_error + jsval" where
  "find_first p [] = Inr JUndef"
| "find_first p (x # xs) =
     (case p x of
        Inl e \<Rightarrow> Inl e
      | Inr found \<Rightarrow> if found then Inr x else find_first p xs)"

definition array_find :: "jstring \<Rightarrow> jsval \<Rightarrow> (jsval \<Rightarrow> js_error + bool) \<Rightarrow> js_error + jsval" where
  "array_find name v p =
     (case v of
        JArr xs \<Rightarrow> find_first p xs
      | JUndef \<Rightarrow> Inl (cannot_read JUndef (js ''find''))
      | JNull \<Rightarrow> Inl (cannot_read JNull (js ''find''))
      | _ \<Rightarrow> Inl (TypeError (name @ js ''.find is not a function'')))"

definition has_id :: "jsval \<Rightarrow> jsval \<Rightarrow> js_error + bool" where
  "has_id targetBoardId b =
     bind_err (get_prop b (js ''id'')) (\<lambda>i. Inr (strict_eq i targetBoardId))"

definition has_type :: "string list \<Rightarrow> jsval \<Rightarrow> js_error + bool" where
  "has_type names c =
     bind_err (get_prop c (js ''type'')) (\<lambda>t. Inr (\<exists>n \<in> set names. strict_eq t (JStr (js n))))"

text \<open>
  \<^verbatim>\<open>!actionItems || !Array.isArray(actionItems) || actionItems.length === 0\<close>.
\<close>

definition no_action_items :: "jsval \<Rightarrow> bool" where
  "no_action_items actionItems =
     (\<not> truthy actionItems \<or>
      (case actionItems of JArr xs \<Rightarrow> False | _ \<Rightarrow> True) \<or>
      (case actionItems of JArr xs \<Rightarrow> length xs = 0 | _ \<Rightarrow> False))"

definition elements :: "jsval \<Rightarrow> jsval list" where
  "elements v = (case v of JArr xs \<Rightarrow> xs | _ \<Rightarrow> [])"

text \<open>
  Lines 286 to 298: the column values of one item, that is the own properties of
  \<^verbatim>\<open>columnValues\<close>, which are what \<^verbatim>\<open>JSON.stringify\<close> writes into the request. The inner
  \<^verbatim>\<open>try\<close> swallows whatever \<^verbatim>\<open>new Date\<close> throws, which leaves the map empty as an invalid
  date does; both are \<open>Date_value pf deadline = None\<close>.
\<close>

definition column_values :: "platform \<Rightarrow> jsval \<Rightarrow> jsval \<Rightarrow> js_error + jsval" where
  "column_values pf dateColumn item =
     (if truthy dateColumn
      then bind_err (get_prop item (js ''deadline'')) (\<lambda>deadline.
             if truthy deadline
             then (case Date_value pf deadline of
                     None \<Rightarrow> Inr (JObj [])
                   | Some t \<Rightarrow>
                       bind_err (get_prop dateColumn (js ''id'')) (\<lambda>cid.
                         Inr (JObj (assign_prop [] (to_string cid)
                                      (JObj [(js ''date'',
                                              JStr (split_T_first (toISOString t)))])))))
             else Inr (JObj []))
      else Inr (JObj []))"

text \<open>Lines 309 to 318: the note. Its first symbol is U+1F4DD, the arrow is U+2192.\<close>

definition labelled :: "string \<Rightarrow> jsval \<Rightarrow> jstring" where
  "labelled label v = (if truthy v then js label @ to_string v else [])"

definition context_note :: "jsval \<Rightarrow> jsval \<Rightarrow> js_error + jstring" where
  "context_note meetingTitle item =
     bind_err (get_prop item (js ''description'')) (\<lambda>description.
     bind_err (get_prop item (js ''priority'')) (\<lambda>priority.
     bind_err (get_prop item (js ''assignee'')) (\<lambda>assignee.
     bind_err (get_prop item (js ''deadline'')) (\<lambda>deadline.
     bind_err (get_prop item (js ''project_context'')) (\<lambda>project_context.
       Inr ([0xD83D, 0xDCDD] @ js '' **From Meeting: '' @
            to_string (js_or meetingTitle (JStr (js ''Untitled''))) @ js ''**\<newline>'' @
            js ''\<newline>'' @
            to_string (js_or description (JStr [])) @ js ''\<newline>'' @
            js ''\<newline>'' @
            js ''**Priority:** '' @ to_string (js_or priority (JStr (js ''Medium''))) @
            js ''\<newline>'' @
            labelled ''**Assigned to:** '' assignee @ js ''\<newline>'' @
            labelled ''**Deadline:** '' deadline @ js ''\<newline>'' @
            labelled ''**Project:** '' project_context @ js ''\<newline>'' @
            js ''\<newline>'' @
            js ''*Auto-created by Granola '' @ [0x2192] @ js '' Monday Agent*''))))))"

text \<open>
  Lines 285 to 320, the body of the \<^verbatim>\<open>try\<close> inside the loop: the value is the created
  item, or the error that the \<^verbatim>\<open>catch\<close> of line 327 receives.
\<close>

definition process_item ::
  "platform \<Rightarrow> env \<Rightarrow> 'w transport \<Rightarrow> jsval \<Rightarrow> jsval \<Rightarrow> jsval \<Rightarrow> jsval \<Rightarrow> jsval \<Rightarrow> 'w net
     \<Rightarrow> (js_error + jsval) \<times> 'w net"
where
  "process_item pf ev tr targetBoardId targetGroupId dateColumn meetingTitle item st =
     bind_eff (column_values pf dateColumn item, st) (\<lambda>columnValues st.
     bind_eff (get_prop item (js ''task_title''), st) (\<lambda>task_title st.
     bind_eff (createMondayItem pf ev tr targetBoardId targetGroupId task_title columnValues st)
       (\<lambda>created st.
     bind_eff (context_note meetingTitle item, st) (\<lambda>contextNote st.
     bind_eff (get_prop created (js ''id''), st) (\<lambda>created_id st.
     bind_eff (addItemUpdate pf ev tr created_id (JStr contextNote) st) (\<lambda>update st.
       (Inr created, st)))))))"

definition success_record :: "jsval \<Rightarrow> jsval \<Rightarrow> jsval" where
  "success_record created item =
     JObj [(js ''success'', JBool True), (js ''item'', created), (js ''original'', item)]"

definition failure_record :: "js_error \<Rightarrow> jsval \<Rightarrow> jsval" where
  "failure_record e item =
     JObj [(js ''success'', JBool False), (js ''error'', JStr (message e)),
           (js ''original'', item)]"

text \<open>
  \<^verbatim>\<open>for (const item of actionItems) { try { ... results.push(...) } catch (error)
  { errors.push(...) } }\<close>, \<open>step\<close> being the body of the \<^verbatim>\<open>try\<close>.
\<close>

fun create_loop ::
  "(jsval \<Rightarrow> 'w net \<Rightarrow> (js_error + jsval) \<times> 'w net) \<Rightarrow> jsval list \<Rightarrow> jsval list \<Rightarrow> jsval list
     \<Rightarrow> 'w net \<Rightarrow> (jsval list \<times> jsval list) \<times> 'w net"
where
  "create_loop step [] results errors st = ((results, errors), st)"
| "create_loop step (item # items) results errors st =
     (case step item st of
        (Inr created, st') \<Rightarrow>
          create_loop step items (results @ [success_record created item]) errors st'
      | (Inl e, st') \<Rightarrow>
          create_loop step items results (errors @ [failure_record e item]) st')"

text \<open>
  What the body of the \<^verbatim>\<open>try\<close> yields for each item of a run of the loop, in the order of
  the items: the outcome of an item is taken in the state its predecessors left.
\<close>

fun item_outcomes ::
  "(jsval \<Rightarrow> 'w net \<Rightarrow> (js_error + jsval) \<times> 'w net) \<Rightarrow> jsval list \<Rightarrow> 'w net
     \<Rightarrow> (js_error + jsval) list"
where
  "item_outcomes step [] st = []"
| "item_outcomes step (item # items) st =
     (case step item st of (r, st') \<Rightarrow> r # item_outcomes step items st')"

text \<open>\<^verbatim>\<open>groupId || board.groups[0]?.id\<close>; the right operand is read only when needed.\<close>

definition target_group :: "jsval \<Rightarrow> jsval \<Rightarrow> js_error + jsval" where
  "target_group groupId board =
     (if truthy groupId then Inr groupId
      else bind_err (get_prop board (js ''groups'')) (\<lambda>groups.
           bind_err (get_first groups) (\<lambda>g. get_prop_opt g (js ''id''))))"

definition batch_response :: "jsval list \<Rightarrow> jsval list \<Rightarrow> jsval \<Rightarrow> jsval \<Rightarrow> jsval \<Rightarrow> response" where
  "batch_response results errors board_id board_name targetGroupId =
     ok [(js ''success'', JBool True),
         (js ''created'', JNum (int (length results))),
         (js ''failed'', JNum (int (length errors))),
         (js ''results'', JArr results),
         (js ''errors'', JArr errors),
         (js ''board'', JObj [(js ''id'', board_id), (js ''name'', board_name)]),
         (js ''group'', JObj [(js ''id'', targetGroupId)])]"

text \<open>
  Lines 276 to 278: the first column of each role. All three searches run; each reads
  \<^verbatim>\<open>c.type\<close> of the columns it passes.
\<close>

definition column_roles :: "jsval \<Rightarrow> js_error + jsval \<times> jsval \<times> jsval" where
  "column_roles board =
     bind_err (get_prop board (js ''columns'')) (\<lambda>columns.
     bind_err (array_find (js ''board.columns'') columns (has_type [''date''])) (\<lambda>dateColumn.
     bind_err (array_find (js ''board.columns'') columns (has_type [''status'', ''color'']))
       (\<lambda>statusColumn.
     bind_err (array_find (js ''board.columns'') columns (has_type [''people''])) (\<lambda>personColumn.
       Inr (dateColumn, statusColumn, personColumn)))))"

text \<open>
  Lines 255 to 344: what follows the two checks of the request, from the fetch of the
  boards to the response.
\<close>

definition create_on_board ::
  "platform \<Rightarrow> env \<Rightarrow> 'w transport \<Rightarrow> jsval \<Rightarrow> jsval \<Rightarrow> jsval \<Rightarrow> jsval \<Rightarrow> 'w net
     \<Rightarrow> (js_error + response) \<times> 'w net"
where
  "create_on_board pf ev tr actionItems targetBoardId groupId meetingTitle st =
     bind_eff (getBoards pf ev tr st) (\<lambda>boards st.
     bind_eff (array_find (js ''boards'') boards (has_id targetBoardId), st) (\<lambda>board st.
       if \<not> truthy board
       then (Inr (failure 404 (js ''Board '' @ to_string targetBoardId @ js '' not found'')), st)
       else
     bind_eff (target_group groupId board, st) (\<lambda>targetGroupId st.
       if \<not> truthy targetGroupId
       then (Inr (failure 400 (js ''No group available in the board'')), st)
       else
     bind_eff (column_roles board, st) (\<lambda>(dateColumn, statusColumn, personColumn) st.
     bind_eff (get_prop board (js ''id''), st) (\<lambda>board_id st.
     bind_eff (get_prop board (js ''name''), st) (\<lambda>board_name st.
       case create_loop
              (process_item pf ev tr targetBoardId targetGroupId dateColumn meetingTitle)
              (elements actionItems) [] [] st of
         ((results, errors), st) \<Rightarrow>
           (Inr (batch_response results errors board_id board_name targetGroupId), st)))))))"

text \<open>\<^verbatim>\<open>app.post('/api/create-tasks', ...)\<close>.\<close>

definition create_tasks_route ::
  "platform \<Rightarrow> env \<Rightarrow> 'w transport \<Rightarrow> jsval \<Rightarrow> 'w net \<Rightarrow> response \<times> 'w net"
where
  "create_tasks_route pf ev tr reqbody st =
     catch_500
       (bind_eff (destructure reqbody (js ''actionItems''), st) (\<lambda>actionItems st.
        bind_eff (destructure reqbody (js ''boardId''), st) (\<lambda>boardId st.
        bind_eff (destructure reqbody (js ''groupId''), st) (\<lambda>groupId st.
        bind_eff (destructure reqbody (js ''meetingTitle''), st) (\<lambda>meetingTitle st.
          if no_action_items actionItems
          then (Inr (failure 400 (js ''No action items provided'')), st)
          else
            let targetBoardId = js_or boardId (env_val (MONDAY_DEFAULT_BOARD_ID ev)) in
            if \<not> truthy targetBoardId
            then (Inr (failure 400 (js ''No board ID specified and no default configured'')), st)
            else create_on_board pf ev tr actionItems targetBoardId groupId meetingTitle st)))))"

subsection \<open>Full pipeline: extract and create\<close>

text \<open>
  \<^verbatim>\<open>!extraction.action_items || extraction.action_items.length === 0\<close>.
\<close>

definition no_extracted_items :: "jsval \<Rightarrow> js_error + bool" where
  "no_extracted_items extraction =
     bind_err (get_prop extraction (js ''action_items'')) (\<lambda>action_items.
       if \<not> truthy action_items then Inr True
       else bind_err (get_prop action_items (js ''length'')) (\<lambda>n. Inr (strict_eq n (JNum 0))))"

text \<open>Step 2, lines 386 to 397: the request the server sends to itself.\<close>

definition loopback_call :: "platform \<Rightarrow> env \<Rightarrow> jsval \<Rightarrow> jsval \<Rightarrow> jsval \<Rightarrow> jsval \<Rightarrow> call" where
  "loopback_call pf ev action_items boardId groupId meetingTitle =
     Fetch (js ''http://localhost:'' @ to_string (js_or (env_val (PORT ev)) (JNum 3000)) @
            js ''/api/create-tasks'')
           [(js ''Content-Type'', JStr (js ''application/json''))]
           (JSON_stringify pf (JObj [(js ''actionItems'', action_items),
                                     (js ''boardId'', boardId),
                                     (js ''groupId'', groupId),
                                     (js ''meetingTitle'', meetingTitle)]))"

definition loopback_create ::
  "platform \<Rightarrow> env \<Rightarrow> 'w transport \<Rightarrow> jsval \<Rightarrow> jsval \<Rightarrow> jsval \<Rightarrow> jsval \<Rightarrow> 'w net
     \<Rightarrow> (js_error + jsval) \<times> 'w net"
where
  "loopback_create pf ev tr action_items boardId groupId meetingTitle st =
     (case perform tr (loopback_call pf ev action_items boardId groupId meetingTitle) st of
        (Rejected e, st') \<Rightarrow> (Inl e, st')
      | (BodyUnreadable e, st') \<Rightarrow> (Inl e, st')
      | (Replied createResult, st') \<Rightarrow> (Inr createResult, st'))"

text \<open>\<^verbatim>\<open>app.post('/api/process-meeting', ...)\<close>.\<close>

definition process_meeting_route ::
  "platform \<Rightarrow> env \<Rightarrow> 'w transport \<Rightarrow> jsval \<Rightarrow> 'w net \<Rightarrow> response \<times> 'w net"
where
  "process_meeting_route pf ev tr reqbody st =
     catch_500
       (bind_eff (destructure reqbody (js ''meetingNotes''), st) (\<lambda>meetingNotes st.
        bind_eff (destructure reqbody (js ''meetingTitle''), st) (\<lambda>meetingTitle st.
        bind_eff (destructure reqbody (js ''boardId''), st) (\<lambda>boardId st.
        bind_eff (destructure reqbody (js ''groupId''), st) (\<lambda>groupId st.
        bind_eff (destructure reqbody (js ''autoCreate''), st) (\<lambda>autoCreate_given st.
          let autoCreate = (if autoCreate_given = JUndef then JBool False else autoCreate_given)
          in
        bind_eff (notes_too_short meetingNotes, st) (\<lambda>short st.
          if short then (Inr (failure 400 notes_message), st)
          else
        bind_eff (extractActionItems pf tr meetingNotes meetingTitle st) (\<lambda>extraction st.
        bind_eff (no_extracted_items extraction, st) (\<lambda>none st.
        bind_eff (get_prop extraction (js ''meeting_summary''), st) (\<lambda>meeting_summary st.
          if none
          then (Inr (ok [(js ''success'', JBool True),
                         (js ''meeting_summary'', meeting_summary),
                         (js ''action_items'', JArr []),
                         (js ''message'',
                            JStr (js ''No action items found in the meeting notes''))]), st)
          else
        bind_eff (get_prop extraction (js ''action_items''), st) (\<lambda>action_items st.
          if \<not> truthy autoCreate
          then
        bind_eff (get_prop action_items (js ''length''), st) (\<lambda>n st.
               (Inr (ok [(js ''success'', JBool True),
                         (js ''meeting_summary'', meeting_summary),
                         (js ''action_items'', action_items),
                         (js ''message'',
                            JStr (js ''Found '' @ to_string n @
                                  js '' action items. Review and confirm to create tasks.''))]),
                st))
          else
        bind_eff (loopback_create pf ev tr action_items boardId groupId meetingTitle st)
          (\<lambda>createResult st.
               (Inr (ok [(js ''success'', JBool True),
                         (js ''meeting_summary'', meeting_summary),
                         (js ''action_items'', action_items),
                         (js ''creation_result'', createResult)]), st)))))))))))))"

section \<open>A platform, an environment and peers for the examples\<close>

text \<open>
  \<open>stringify\<close> writes a value as \<^verbatim>\<open>JSON.stringify\<close> does when no string of the value
  holds a lone surrogate: no white space, a property whose value is \<^verbatim>\<open>undefined\<close> left
  out, \<^verbatim>\<open>undefined\<close> inside an array written \<^verbatim>\<open>null\<close>.
\<close>

definition hex_digit :: "nat \<Rightarrow> 16 word" where
  "hex_digit d = (if d < 10 then of_nat (48 + d) else of_nat (87 + d))"

definition quote_unit :: "16 word \<Rightarrow> jstring" where
  "quote_unit c =
     (if c = 0x22 then [0x5C, 0x22]
      else if c = 0x5C then [0x5C, 0x5C]
      else if c = 0x08 then [0x5C, 0x62]
      else if c = 0x0C then [0x5C, 0x66]
      else if c = 0x0A then [0x5C, 0x6E]
      else if c = 0x0D then [0x5C, 0x72]
      else if c = 0x09 then [0x5C, 0x74]
      else if c < 0x20
        then [0x5C, 0x75, 0x30, 0x30, hex_digit (unat c div 16), hex_digit (unat c mod 16)]
      else [c])"

definition quote :: "jstring \<Rightarrow> jstring" where
  "quote s = [0x22] @ concat (map quote_unit s) @ [0x22]"

fun stringify :: "jsval \<Rightarrow> jstring" where
  "stringify JUndef = js ''null''"
| "stringify JNull = js ''null''"
| "stringify (JBool b) = (if b then js ''true'' else js ''false'')"
| "stringify (JNum n) = int_digits n"
| "stringify (JStr s) = quote s"
| "stringify (JArr xs) = js ''['' @ join_comma (map stringify xs) @ js '']''"
| "stringify (JObj fs) =
     js ''{'' @
     join_comma (map (\<lambda>(k, v). quote k @ js '':'' @ stringify v)
                     (filter (\<lambda>(k, v). v \<noteq> JUndef) fs)) @
     js ''}''"

text \<open>
  The platform of the examples. Its \<open>JSON_parse\<close> and \<open>Date_value\<close> are tables: they
  hold the values of \<^verbatim>\<open>JSON.parse\<close> and of \<^verbatim>\<open>new Date\<close> on the texts of the examples,
  and reject every other text.
\<close>

definition no_items_text :: jstring where
  \<open>no_items_text = js ''{"meeting_summary":"```","action_items":[]}''\<close>

definition summary_only :: jsval where
  "summary_only = JObj [(js ''meeting_summary'', JStr (js ''```'')), (js ''action_items'', JArr [])]"

definition call_bob :: jsval where
  "call_bob = JObj [(js ''task_title'', JStr (js ''Call Bob''))]"

definition one_item_text :: jstring where
  \<open>one_item_text = js ''{"meeting_summary":"Sync","action_items":[{"task_title":"Call Bob"}]}''\<close>

definition one_item_extraction :: jsval where
  "one_item_extraction =
     JObj [(js ''meeting_summary'', JStr (js ''Sync'')), (js ''action_items'', JArr [call_bob])]"

definition example_parse :: "jstring \<Rightarrow> js_error + jsval" where
  "example_parse s =
     (if s = no_items_text then Inr summary_only
      else if s = one_item_text then Inr one_item_extraction
      else Inl (SyntaxError (js ''Unexpected end of JSON input'')))"

definition example_date :: "jsval \<Rightarrow> int option" where
  "example_date v = (if v = JStr (js ''2025-01-20'') then Some 1737331200000 else None)"

definition example_platform :: platform where
  "example_platform =
     \<lparr>JSON_parse = example_parse, JSON_stringify = stringify, Date_value = example_date,
      Date_now = 1737331200000\<rparr>"

definition example_env :: env where
  "example_env =
     \<lparr>ANTHROPIC_API_KEY = Some (js ''key''), MONDAY_API_TOKEN = Some (js ''token''),
      MONDAY_DEFAULT_BOARD_ID = None, PORT = None\<rparr>"

text \<open>Peers: the state of a peer is the number of calls it has answered.\<close>

definition errors_peer :: "nat transport" where
  "errors_peer w c = (Replied (JObj [(js ''errors'', JArr [JStr (js ''bad'')])]), Suc w)"

definition null_errors_peer :: "nat transport" where
  "null_errors_peer w c =
     (Replied (JObj [(js ''data'', JObj [(js ''users'', JArr [])]), (js ''errors'', JNull)]),
      Suc w)"

definition scripted :: "reply list \<Rightarrow> nat transport" where
  "scripted replies w c =
     (if w < length replies then replies ! w else Rejected (Error (js ''fetch failed'')), Suc w)"

text \<open>Replies, items and requests of the examples.\<close>

definition example_board :: jsval where
  "example_board =
     JObj [(js ''id'', JStr (js ''B1'')), (js ''name'', JStr (js ''Tasks'')),
           (js ''groups'', JArr [JObj [(js ''id'', JStr (js ''g1'')), (js ''title'', JStr (js ''Todo''))]]),
           (js ''columns'',
              JArr [JObj [(js ''id'', JStr (js ''d1'')), (js ''title'', JStr (js ''Due'')),
                          (js ''type'', JStr (js ''date''))]])]"

definition boards_reply :: "jsval list \<Rightarrow> reply" where
  "boards_reply bs = Replied (JObj [(js ''data'', JObj [(js ''boards'', JArr bs)])])"

definition created_item :: "string \<Rightarrow> string \<Rightarrow> jsval" where
  "created_item i n = JObj [(js ''id'', JStr (js i)), (js ''name'', JStr (js n))]"

definition created_reply :: "string \<Rightarrow> string \<Rightarrow> reply" where
  "created_reply i n = Replied (JObj [(js ''data'', JObj [(js ''create_item'', created_item i n)])])"

definition update_reply :: reply where
  "update_reply =
     Replied (JObj [(js ''data'', JObj [(js ''create_update'', JObj [(js ''id'', JStr (js ''u1''))])])])"

definition refused_reply :: reply where
  "refused_reply =
     Replied (JObj [(js ''errors'', JArr [JObj [(js ''message'', JStr (js ''Invalid item name''))]])])"

definition bad_title :: jsval where
  "bad_title = JObj [(js ''task_title'', JStr [0x42, 0x00, 0x64]), (js ''priority'', JStr (js ''high''))]"

definition send_report :: jsval where
  "send_report =
     JObj [(js ''task_title'', JStr (js ''Send report'')), (js ''deadline'', JStr (js ''2025-01-20''))]"

definition three_items_request :: jsval where
  "three_items_request =
     JObj [(js ''actionItems'', JArr [call_bob, bad_title, send_report]),
           (js ''boardId'', JStr (js ''B1''))]"

definition second_refused :: "reply list" where
  "second_refused =
     [boards_reply [example_board],
      created_reply ''101'' ''Call Bob'', update_reply,
      refused_reply,
      created_reply ''103'' ''Send report'', update_reply]"










definition long_notes :: jstring where
  "long_notes = js ''Bob will call the client on Monday and Alice sends the report.''"

definition text_reply :: "jstring \<Rightarrow> reply" where
  "text_reply t =
     Replied (JObj [(js ''content'',
                       JArr [JObj [(js ''type'', JStr (js ''text'')), (js ''text'', JStr t)]])])"

section \<open>Properties of the Monday.com API helper\<close>

lemma perform_eq: "tr w c = (r, w') \<Longrightarrow> perform tr c (w, log) = (r, (w', log @ [c]))"
  by (simp add: perform_def)

lemma get_prop_Inl_cases: "get_prop v k = Inl e \<Longrightarrow> v = JUndef \<or> v = JNull"
  by (cases v) simp_all

lemma mondayRequest_snd:
  "tr w (monday_call pf ev query (if variables = JUndef then JObj [] else variables)) = (r, w') \<Longrightarrow>
   snd (mondayRequest pf ev tr query variables (w, log)) =
     (w', log @ [monday_call pf ev query (if variables = JUndef then JObj [] else variables)])"
  by (simp add: mondayRequest_def Let_def perform_eq split: reply.splits sum.splits)

lemma mondayRequest_fst:
  "tr w (monday_call pf ev query (if variables = JUndef then JObj [] else variables)) = (r, w') \<Longrightarrow>
   fst (mondayRequest pf ev tr query variables (w, log)) =
     (case r of
        Rejected e \<Rightarrow> Inl e
      | BodyUnreadable e \<Rightarrow> Inl e
      | Replied data \<Rightarrow>
          (case get_prop data (js ''errors'') of
             Inl e \<Rightarrow> Inl e
           | Inr errs \<Rightarrow>
               if truthy errs
               then Inl (Error (js ''Monday.com API Error: '' @ JSON_stringify pf errs))
               else Inr data))"
  by (simp add: mondayRequest_def Let_def perform_eq split: reply.splits sum.splits)

text \<open>
  C9, as the code has it. \<open>mondayRequest\<close> makes exactly one call and never a second
  one. It signals an error exactly when the call or the reading of the body fails, when
  the body is \<^verbatim>\<open>null\<close>, or when the \<^verbatim>\<open>errors\<close> field of the body is truthy (present alone
  is not enough). When \<^verbatim>\<open>errors\<close> is truthy the message is \<^verbatim>\<open>Monday.com API Error: \<close>
  followed by the serialized \<^verbatim>\<open>errors\<close>; a failure of the transport is passed on as it
  is; and a value that is returned is the parsed body, unchanged.
\<close>

theorem mondayRequest_contract:
  assumes "tr w (monday_call pf ev query (if variables = JUndef then JObj [] else variables))
             = (r, w')"
  shows "snd (mondayRequest pf ev tr query variables (w, log)) =
           (w', log @ [monday_call pf ev query (if variables = JUndef then JObj [] else variables)])
    \<and> (isl (fst (mondayRequest pf ev tr query variables (w, log))) \<longleftrightarrow>
           (\<forall>data. r \<noteq> Replied data) \<or> r = Replied JNull \<or> r = Replied JUndef \<or>
           (\<exists>data errs. r = Replied data \<and> get_prop data (js ''errors'') = Inr errs \<and> truthy errs))
    \<and> (\<forall>data errs. r = Replied data \<and> get_prop data (js ''errors'') = Inr errs \<and> truthy errs \<longrightarrow>
           fst (mondayRequest pf ev tr query variables (w, log)) =
             Inl (Error (js ''Monday.com API Error: '' @ JSON_stringify pf errs)))
    \<and> (\<forall>e. r = Rejected e \<or> r = BodyUnreadable e \<longrightarrow>
           fst (mondayRequest pf ev tr query variables (w, log)) = Inl e)
    \<and> (\<forall>data. fst (mondayRequest pf ev tr query variables (w, log)) = Inr data \<longrightarrow>
           r = Replied data)"
proof (intro conjI)
  note f = mondayRequest_fst [of tr w pf ev query variables r w' log, OF assms]
  show "snd (mondayRequest pf ev tr query variables (w, log)) =
           (w', log @ [monday_call pf ev query (if variables = JUndef then JObj [] else variables)])"
    by (rule mondayRequest_snd [of tr w pf ev query variables r w' log, OF assms])
  show "isl (fst (mondayRequest pf ev tr query variables (w, log))) \<longleftrightarrow>
           (\<forall>data. r \<noteq> Replied data) \<or> r = Replied JNull \<or> r = Replied JUndef \<or>
           (\<exists>data errs. r = Replied data \<and> get_prop data (js ''errors'') = Inr errs \<and> truthy errs)"
    unfolding f by (cases r) (auto split: sum.splits dest: get_prop_Inl_cases)
  show "\<forall>data errs. r = Replied data \<and> get_prop data (js ''errors'') = Inr errs \<and> truthy errs \<longrightarrow>
           fst (mondayRequest pf ev tr query variables (w, log)) =
             Inl (Error (js ''Monday.com API Error: '' @ JSON_stringify pf errs))"
    unfolding f by auto
  show "\<forall>e. r = Rejected e \<or> r = BodyUnreadable e \<longrightarrow>
           fst (mondayRequest pf ev tr query variables (w, log)) = Inl e"
    unfolding f by auto
  show "\<forall>data. fst (mondayRequest pf ev tr query variables (w, log)) = Inr data \<longrightarrow>
           r = Replied data"
    unfolding f by (cases r) (auto split: sum.splits if_splits)
qed

theorem mondayRequest_contract_witness:
  \<open>mondayRequest example_platform example_env errors_peer users_query JUndef (0, []) =
     (Inl (Error (js ''Monday.com API Error: ["bad"]'')),
      (1, [monday_call example_platform example_env users_query (JObj [])]))\<close>
  using mondayRequest_contract [of errors_peer 0 example_platform example_env users_query JUndef
      "Replied (JObj [(js ''errors'', JArr [JStr (js ''bad'')])])" 1 "[]"]
  by (simp add: errors_peer_def prod_eq_iff example_platform_def quote_def quote_unit_def js_def)

text \<open>
  The body \<^verbatim>\<open>{"data":{"users":[]},"errors":null}\<close> has an \<^verbatim>\<open>errors\<close> field, and no
  error is signalled: the body is returned.
\<close>

theorem mondayRequest_errors_present_counterexample:
  "map_of [(js ''data'', JObj [(js ''users'', JArr [])]), (js ''errors'', JNull)] (js ''errors'')
     = Some JNull
   \<and> fst (mondayRequest example_platform example_env null_errors_peer users_query JUndef (0, [])) =
       Inr (JObj [(js ''data'', JObj [(js ''users'', JArr [])]), (js ''errors'', JNull)])"
  by (simp add: mondayRequest_def perform_def null_errors_peer_def js_def)

section \<open>Properties of the routes\<close>

lemma bind_eff_Inr [simp]: "bind_eff (Inr a, s) f = f a s"
  by (simp add: bind_eff_def)

lemma bind_eff_Inl [simp]: "bind_eff (Inl e, s) f = (Inl e, s)"
  by (simp add: bind_eff_def)

lemma bind_err_Inr [simp]: "bind_err (Inr a) f = f a"
  by (simp add: bind_err_def)

lemma bind_err_Inl [simp]: "bind_err (Inl e) f = Inl e"
  by (simp add: bind_err_def)

lemma catch_500_Inr [simp]: "catch_500 (Inr r, s) = (r, s)"
  by (simp add: catch_500_def)

lemma catch_500_Inl [simp]: "catch_500 (Inl e, s) = (failure 500 (message e), s)"
  by (simp add: catch_500_def)

lemma destructure_get_prop:
  "get_prop b k = Inr v \<Longrightarrow> \<exists>x. destructure b k' = Inr x \<and> get_prop b k' = Inr x"
  by (cases b) (simp_all add: destructure_def)

lemma destructure_same: "get_prop b k = Inr v \<Longrightarrow> destructure b k = Inr v"
  by (cases b) (simp_all add: destructure_def)

lemma extractActionItems_log:
  "snd (snd (extractActionItems pf tr mn mt st)) =
     snd st @ [MessagesCreate (extraction_params pf mn (if mt = JUndef then JStr [] else mt))]"
  by (cases st) (simp add: extractActionItems_def perform_def Let_def split: prod.splits reply.splits)






text \<open>
  C5, as the code has it. Take a request that has a body, an object that gives
  \<^verbatim>\<open>actionItems\<close> and \<^verbatim>\<open>boardId\<close> the values \<open>actionItems\<close> and \<open>boardId\<close> (\<open>JUndef\<close> when
  absent from the object). If \<open>actionItems\<close> is not a
  non-empty array, or if neither \<open>boardId\<close> nor \<^verbatim>\<open>MONDAY_DEFAULT_BOARD_ID\<close> is truthy, the
  route answers 400 with \<^verbatim>\<open>success: false\<close> and the state of the network is what it was:
  no call was made.
\<close>

theorem create_tasks_fail_fast:
  assumes "get_prop reqbody (js ''actionItems'') = Inr actionItems"
      and "get_prop reqbody (js ''boardId'') = Inr boardId"
  shows "((\<forall>x xs. actionItems \<noteq> JArr (x # xs)) \<longrightarrow>
            create_tasks_route pf ev tr reqbody st =
              (\<lparr>status = 400,
                body = JObj [(js ''success'', JBool False),
                             (js ''error'', JStr (js ''No action items provided''))]\<rparr>, st))
       \<and> (\<not> truthy boardId \<and> \<not> truthy (env_val (MONDAY_DEFAULT_BOARD_ID ev)) \<longrightarrow>
            (\<exists>msg. create_tasks_route pf ev tr reqbody st =
              (\<lparr>status = 400,
                body = JObj [(js ''success'', JBool False), (js ''error'', JStr msg)]\<rparr>, st)))
       \<and> ((\<exists>x xs. actionItems = JArr (x # xs)) \<and>
          \<not> truthy boardId \<and> \<not> truthy (env_val (MONDAY_DEFAULT_BOARD_ID ev)) \<longrightarrow>
            create_tasks_route pf ev tr reqbody st =
              (\<lparr>status = 400,
                body = JObj [(js ''success'', JBool False),
                             (js ''error'',
                                JStr (js ''No board ID specified and no default configured''))]\<rparr>,
               st))"
proof -
  obtain gi where gi: "destructure reqbody (js ''groupId'') = Inr gi"
    using destructure_get_prop [OF assms(1)] by blast
  obtain mt where mt: "destructure reqbody (js ''meetingTitle'') = Inr mt"
    using destructure_get_prop [OF assms(1)] by blast
  note ai = destructure_same [OF assms(1)]
  note bi = destructure_same [OF assms(2)]
  have none: "no_action_items actionItems \<longleftrightarrow> (\<forall>x xs. actionItems \<noteq> JArr (x # xs))"
  proof (cases actionItems)
    case (JArr ys)
    then show ?thesis by (cases ys) (simp_all add: no_action_items_def)
  qed (simp_all add: no_action_items_def)
  have a: "(\<forall>x xs. actionItems \<noteq> JArr (x # xs)) \<Longrightarrow>
      create_tasks_route pf ev tr reqbody st = (failure 400 (js ''No action items provided''), st)"
    using none by (simp add: create_tasks_route_def ai bi gi mt)
  have b: "\<exists>x xs. actionItems = JArr (x # xs) \<Longrightarrow>
      \<not> truthy boardId \<Longrightarrow> \<not> truthy (env_val (MONDAY_DEFAULT_BOARD_ID ev)) \<Longrightarrow>
      create_tasks_route pf ev tr reqbody st =
        (failure 400 (js ''No board ID specified and no default configured''), st)"
    using none by (auto simp add: create_tasks_route_def ai bi gi mt js_or_def Let_def)
  show ?thesis
    using a b by (auto simp: failure_def) 
qed

theorem create_tasks_fail_fast_witness:
  "create_tasks_route example_platform example_env errors_peer
      (JObj [(js ''actionItems'', JArr []), (js ''boardId'', JStr (js ''42''))]) (0, []) =
     (\<lparr>status = 400,
       body = JObj [(js ''success'', JBool False),
                    (js ''error'', JStr (js ''No action items provided''))]\<rparr>, (0, []))
   \<and> create_tasks_route example_platform example_env errors_peer
      (JObj [(js ''actionItems'', JArr [JObj [(js ''task_title'', JStr (js ''Call Bob''))]])])
      (0, []) =
     (\<lparr>status = 400,
       body = JObj [(js ''success'', JBool False),
                    (js ''error'',
                       JStr (js ''No board ID specified and no default configured''))]\<rparr>,
      (0, []))"
  using create_tasks_fail_fast [of "JObj [(js ''actionItems'', JArr []), (js ''boardId'', JStr (js ''42''))]"
      "JArr []" "JStr (js ''42'')" example_platform example_env errors_peer "(0, [])"]
    create_tasks_fail_fast [of
      "JObj [(js ''actionItems'', JArr [JObj [(js ''task_title'', JStr (js ''Call Bob''))]])]"
      "JArr [JObj [(js ''task_title'', JStr (js ''Call Bob''))]]" JUndef
      example_platform example_env errors_peer "(0, [])"]
  by (simp add: js_def example_env_def env_val_def)

text \<open>
  A request without a body, for which \<^verbatim>\<open>req.body\<close> is \<^verbatim>\<open>undefined\<close>: the action items
  are missing, and the route answers 500, not 400, with the message of the \<^verbatim>\<open>TypeError\<close>
  that taking \<^verbatim>\<open>req.body\<close> apart throws.
\<close>

theorem absent_body_items_counterexample:
  "create_tasks_route example_platform example_env errors_peer JUndef (0, []) =
     (\<lparr>status = 500,
       body = JObj [(js ''success'', JBool False),
                    (js ''error'',
                       JStr (js ''Cannot destructure property '' @ [0x27] @ js ''actionItems'' @
                             [0x27] @ js '' of '' @ [0x27] @ js ''req.body'' @ [0x27] @
                             js '' as it is undefined.''))]\<rparr>,
      (0, []))"
  by (simp add: create_tasks_route_def destructure_def failure_def js_def)

section \<open>Properties of task creation and of the pipeline\<close>

lemma mondayRequest_log:
  "snd (snd (mondayRequest pf ev tr query variables st)) =
     snd st @ [monday_call pf ev query (if variables = JUndef then JObj [] else variables)]"
  by (cases st)
     (simp add: mondayRequest_def perform_def Let_def split: prod.splits reply.splits sum.splits)

lemma data_field_state: "snd (data_field k r) = snd r"
  by (cases r; cases "fst r") (auto simp: data_field_def)


lemma truthy_get_prop: "truthy v \<Longrightarrow> \<exists>x. get_prop v k = Inr x"
  by (cases v) simp_all

lemma create_tasks_resolved:
  assumes ai: "get_prop reqbody (js ''actionItems'') = Inr (JArr (x # xs))"
      and bi: "get_prop reqbody (js ''boardId'') = Inr boardId"
      and gi: "get_prop reqbody (js ''groupId'') = Inr groupId"
      and mt: "get_prop reqbody (js ''meetingTitle'') = Inr meetingTitle"
      and tb: "truthy (js_or boardId (env_val (MONDAY_DEFAULT_BOARD_ID ev)))"
      and boards: "getBoards pf ev tr st = (Inr boards, st1)"
      and board: "array_find (js ''boards'') boards
                    (has_id (js_or boardId (env_val (MONDAY_DEFAULT_BOARD_ID ev)))) = Inr board"
      and found: "truthy board"
      and group: "target_group groupId board = Inr targetGroupId"
      and tg: "truthy targetGroupId"
      and cols: "column_roles board = Inr (dateColumn, statusColumn, personColumn)"
      and bid: "get_prop board (js ''id'') = Inr board_id"
      and bname: "get_prop board (js ''name'') = Inr board_name"
  shows "create_tasks_route pf ev tr reqbody st =
           (case create_loop
                   (process_item pf ev tr (js_or boardId (env_val (MONDAY_DEFAULT_BOARD_ID ev)))
                      targetGroupId dateColumn meetingTitle)
                   (x # xs) [] [] st1 of
              ((results, errors), st2) \<Rightarrow>
                (batch_response results errors board_id board_name targetGroupId, st2))"
proof -
  have none: "\<not> no_action_items (JArr (x # xs))"
    by (simp add: no_action_items_def)
  show ?thesis
    using none tb
    by (simp add: create_tasks_route_def create_on_board_def destructure_same [OF ai]
          destructure_same [OF bi] destructure_same [OF gi] destructure_same [OF mt]
          boards board found group tg cols bid bname elements_def Let_def
          split: prod.splits)
qed

lemma length_item_outcomes [simp]: "length (item_outcomes step items st) = length items"
  by (induction items arbitrary: st) (auto split: prod.splits)

lemma create_loop_outcomes:
  "fst (create_loop step items results errors st) =
     (results @ map (\<lambda>(r, item). success_record (projr r) item)
                  (filter (\<lambda>(r, item). \<not> isl r) (zip (item_outcomes step items st) items)),
      errors @ map (\<lambda>(r, item). failure_record (projl r) item)
                 (filter (\<lambda>(r, item). isl r) (zip (item_outcomes step items st) items)))"
proof (induction items arbitrary: results errors st)
  case Nil
  then show ?case by simp
next
  case (Cons item items)
  obtain r st' where step: "step item st = (r, st')"
    by (cases "step item st")
  show ?case
    by (cases r) (simp_all add: step Cons.IH)
qed

lemma filter_single:
  assumes "k < length ys" and "P (ys ! k)" and "\<forall>j < length ys. j \<noteq> k \<longrightarrow> \<not> P (ys ! j)"
  shows "filter P ys = [ys ! k]"
proof -
  have decomp: "ys = take k ys @ ys ! k # drop (Suc k) ys"
    using assms(1) by (simp add: id_take_nth_drop)
  have front: "filter P (take k ys) = []"
    using assms by (auto simp: filter_empty_conv in_set_conv_nth)
  have rear: "filter P (drop (Suc k) ys) = []"
    using assms by (auto simp: filter_empty_conv in_set_conv_nth)
  have "filter P ys = filter P (take k ys) @ filter P [ys ! k] @ filter P (drop (Suc k) ys)"
    by (subst decomp) simp
  then show ?thesis
    using front rear assms(2) by simp
qed

lemma length_filter_rest:
  assumes "k < length ys" and "P (ys ! k)" and "\<forall>j < length ys. j \<noteq> k \<longrightarrow> \<not> P (ys ! j)"
  shows "length (filter (\<lambda>y. \<not> P y) ys) = length ys - 1"
  using sum_length_filter_compl [of P ys] filter_single [OF assms] by simp

text \<open>
  When does the body of the \<^verbatim>\<open>try\<close> fail? For an item that is an object, only through
  its two requests: the create request fails, or its reply carries no created item to
  read the id of, or the update request fails.
\<close>

lemma column_values_object:
  "\<not> truthy dateColumn \<or> (\<exists>cs. dateColumn = JObj cs) \<Longrightarrow>
   \<exists>cv. column_values pf dateColumn (JObj fs) = Inr cv"
  by (auto simp: column_values_def split: option.splits)

lemma context_note_object: "\<exists>n. context_note mt (JObj fs) = Inr n"
  by (simp add: context_note_def)

lemma process_item_object:
  assumes "\<not> truthy dateColumn \<or> (\<exists>cs. dateColumn = JObj cs)"
      and "process_item pf ev tr tb tg dateColumn mt (JObj fs) st = (Inl e, st')"
  shows "\<exists>title cv.
           column_values pf dateColumn (JObj fs) = Inr cv \<and>
           get_prop (JObj fs) (js ''task_title'') = Inr title \<and>
           (createMondayItem pf ev tr tb tg title cv st = (Inl e, st')
            \<or> (\<exists>created. createMondayItem pf ev tr tb tg title cv st = (Inr created, st') \<and>
                           get_prop created (js ''id'') = Inl e)
            \<or> (\<exists>created s1 cid n.
                   createMondayItem pf ev tr tb tg title cv st = (Inr created, s1) \<and>
                   addItemUpdate pf ev tr cid (JStr n) s1 = (Inl e, st')))"
proof -
  obtain cv where cv: "column_values pf dateColumn (JObj fs) = Inr cv"
    using column_values_object [OF assms(1)] by blast
  obtain n where n: "context_note mt (JObj fs) = Inr n"
    using context_note_object by blast
  show ?thesis
    using assms(2)
    by (auto simp: process_item_def cv n bind_eff_def split: sum.splits prod.splits)
qed

text \<open>
  C1. Take a request with the items \<open>items\<close>, not empty, that passes the two checks and
  for which the board, the group and the columns are resolved. Let \<open>outcomes\<close> be what
  the body of the \<^verbatim>\<open>try\<close> yields for each item, in the state the items before it left. If
  item \<open>k\<close> fails with the error \<open>e\<close> and every other item succeeds, the response is a
  200 whose \<^verbatim>\<open>created\<close> is \<open>N - 1\<close>, whose \<^verbatim>\<open>failed\<close> is \<open>1\<close>, whose \<^verbatim>\<open>errors\<close> is the one
  record that holds the message of \<open>e\<close> and item \<open>k\<close> as it came, and whose \<^verbatim>\<open>results\<close>
  are the \<open>N - 1\<close> records of the other items, in their order.
\<close>

theorem batch_isolation:
  assumes ai: "get_prop reqbody (js ''actionItems'') = Inr (JArr items)"
      and nonempty: "items \<noteq> []"
      and bi: "get_prop reqbody (js ''boardId'') = Inr boardId"
      and gi: "get_prop reqbody (js ''groupId'') = Inr groupId"
      and mt: "get_prop reqbody (js ''meetingTitle'') = Inr meetingTitle"
      and tb: "truthy (js_or boardId (env_val (MONDAY_DEFAULT_BOARD_ID ev)))"
      and boards: "getBoards pf ev tr st = (Inr boards, st1)"
      and board: "array_find (js ''boards'') boards
                    (has_id (js_or boardId (env_val (MONDAY_DEFAULT_BOARD_ID ev)))) = Inr board"
      and found: "truthy board"
      and group: "target_group groupId board = Inr targetGroupId"
      and tg: "truthy targetGroupId"
      and cols: "column_roles board = Inr (dateColumn, statusColumn, personColumn)"
      and outcomes: "outcomes =
                       item_outcomes
                         (process_item pf ev tr (js_or boardId (env_val (MONDAY_DEFAULT_BOARD_ID ev)))
                            targetGroupId dateColumn meetingTitle) items st1"
      and k: "k < length items"
      and fails: "outcomes ! k = Inl e"
      and others: "\<forall>j < length items. j \<noteq> k \<longrightarrow> (\<exists>created. outcomes ! j = Inr created)"
  shows "\<exists>results board_id board_name.
           fst (create_tasks_route pf ev tr reqbody st) =
             \<lparr>status = 200,
              body = JObj [(js ''success'', JBool True),
                           (js ''created'', JNum (int (length items) - 1)),
                           (js ''failed'', JNum 1),
                           (js ''results'', JArr results),
                           (js ''errors'',
                              JArr [JObj [(js ''success'', JBool False),
                                          (js ''error'', JStr (message e)),
                                          (js ''original'', items ! k)]]),
                           (js ''board'', JObj [(js ''id'', board_id), (js ''name'', board_name)]),
                           (js ''group'', JObj [(js ''id'', targetGroupId)])]\<rparr>
         \<and> length results = length items - 1
         \<and> results = map (\<lambda>(r, item). success_record (projr r) item)
                         (filter (\<lambda>(r, item). \<not> isl r) (zip outcomes items))"
proof -
  let ?step = "process_item pf ev tr (js_or boardId (env_val (MONDAY_DEFAULT_BOARD_ID ev)))
                 targetGroupId dateColumn meetingTitle"
  let ?ys = "zip outcomes items"
  let ?P = "\<lambda>(r :: js_error + jsval, item :: jsval). isl r"
  obtain x xs where items: "items = x # xs"
    using nonempty by (cases items) auto
  obtain board_id where bid: "get_prop board (js ''id'') = Inr board_id"
    using truthy_get_prop [OF found] by blast
  obtain board_name where bname: "get_prop board (js ''name'') = Inr board_name"
    using truthy_get_prop [OF found] by blast
  have len: "length outcomes = length items"
    by (simp add: outcomes)
  have lys: "length ?ys = length items"
    by (simp add: len)
  have yk: "?P (?ys ! k)"
    using k fails len by simp
  have yj: "\<forall>j < length ?ys. j \<noteq> k \<longrightarrow> \<not> ?P (?ys ! j)"
    using others len by auto
  have kk: "k < length ?ys"
    using k lys by simp
  have errs: "filter ?P ?ys = [(Inl e, items ! k)]"
    using filter_single [of k ?ys ?P, OF kk yk yj] k fails len by simp
  have cnt: "length (filter (\<lambda>y. \<not> ?P y) ?ys) = length items - 1"
    using length_filter_rest [of k ?ys ?P, OF kk yk yj] lys by simp
  have same: "(\<lambda>y. \<not> ?P y) = (\<lambda>(r, item). \<not> isl r)"
    by (auto simp: fun_eq_iff)
  let ?results = "map (\<lambda>(r, item). success_record (projr r) item)
                    (filter (\<lambda>(r, item). \<not> isl r) ?ys)"
  have loop: "fst (create_loop ?step items [] [] st1) =
                (?results, [failure_record e (items ! k)])"
    using create_loop_outcomes [of ?step items "[]" "[]" st1] errs
    by (simp add: outcomes [symmetric])
  have route: "create_tasks_route pf ev tr reqbody st =
           (case create_loop ?step (x # xs) [] [] st1 of
              ((results, errors), st2) \<Rightarrow>
                (batch_response results errors board_id board_name targetGroupId, st2))"
    using create_tasks_resolved [OF ai [unfolded items] bi gi mt tb boards board found group tg
        cols bid bname] .
  have "fst (create_tasks_route pf ev tr reqbody st) =
          batch_response ?results [failure_record e (items ! k)] board_id board_name targetGroupId"
    using loop unfolding route items [symmetric]
    by (cases "create_loop ?step items [] [] st1") auto
  moreover have "length ?results = length items - 1"
    using cnt by (simp add: same)
  moreover have "int (length items - Suc 0) = int (length items) - 1"
    using nonempty by (cases items) simp_all
  ultimately show ?thesis
    by (simp add: batch_response_def ok_def failure_record_def)
qed

lemma scripted_perform:
  "perform (scripted replies) c (w, log) =
     (if w < length replies then replies ! w else Rejected (Error (js ''fetch failed'')),
      (Suc w, log @ [c]))"
  by (simp add: perform_def scripted_def)

lemma example_outcomes:
  \<open>item_outcomes
     (process_item example_platform example_env (scripted second_refused)
        (js_or (JStr (js ''B1'')) (env_val (MONDAY_DEFAULT_BOARD_ID example_env)))
        (JStr (js ''g1''))
        (JObj [(js ''id'', JStr (js ''d1'')), (js ''title'', JStr (js ''Due'')),
               (js ''type'', JStr (js ''date''))])
        JUndef)
     [call_bob, bad_title, send_report]
     (1, [monday_call example_platform example_env boards_query (JObj [])]) =
   [Inr (created_item ''101'' ''Call Bob''),
    Inl (Error (js ''Monday.com API Error: [{"message":"Invalid item name"}]'')),
    Inr (created_item ''103'' ''Send report'')]\<close>
  by (simp add: process_item_def column_values_def createMondayItem_def addItemUpdate_def
        context_note_def data_field_def mondayRequest_def scripted_perform second_refused_def
        created_reply_def update_reply_def refused_reply_def call_bob_def bad_title_def
        send_report_def created_item_def example_platform_def example_date_def js_def js_or_def
        quote_def quote_unit_def)

theorem batch_isolation_witness:
  \<open>\<exists>results board_id board_name.
     fst (create_tasks_route example_platform example_env (scripted second_refused)
            three_items_request (0, [])) =
       \<lparr>status = 200,
        body = JObj [(js ''success'', JBool True),
                     (js ''created'', JNum 2),
                     (js ''failed'', JNum 1),
                     (js ''results'', JArr results),
                     (js ''errors'',
                        JArr [JObj [(js ''success'', JBool False),
                                    (js ''error'',
                                       JStr (js ''Monday.com API Error: [{"message":"Invalid item name"}]'')),
                                    (js ''original'', bad_title)]]),
                     (js ''board'', JObj [(js ''id'', board_id), (js ''name'', board_name)]),
                     (js ''group'', JObj [(js ''id'', JStr (js ''g1''))])]\<rparr>
     \<and> length results = 2\<close>
proof -
  let ?items = "[call_bob, bad_title, send_report]"
  let ?st1 = "(1 :: nat, [monday_call example_platform example_env boards_query (JObj [])])"
  let ?date = "JObj [(js ''id'', JStr (js ''d1'')), (js ''title'', JStr (js ''Due'')),
                     (js ''type'', JStr (js ''date''))]"
  let ?target = "js_or (JStr (js ''B1'')) (env_val (MONDAY_DEFAULT_BOARD_ID example_env))"
  have ai: "get_prop three_items_request (js ''actionItems'') = Inr (JArr ?items)"
    by (simp add: three_items_request_def js_def)
  have bi: "get_prop three_items_request (js ''boardId'') = Inr (JStr (js ''B1''))"
    by (simp add: three_items_request_def js_def)
  have gi: "get_prop three_items_request (js ''groupId'') = Inr JUndef"
    by (simp add: three_items_request_def js_def)
  have mt: "get_prop three_items_request (js ''meetingTitle'') = Inr JUndef"
    by (simp add: three_items_request_def js_def)
  have tb: "truthy ?target"
    by (simp add: js_or_def js_def)
  have boards: "getBoards example_platform example_env (scripted second_refused) (0, []) =
                  (Inr (JArr [example_board]), ?st1)"
    by (simp add: getBoards_def data_field_def mondayRequest_def scripted_perform
          second_refused_def boards_reply_def js_def)
  have board: "array_find (js ''boards'') (JArr [example_board]) (has_id ?target) = Inr example_board"
    by (simp add: array_find_def has_id_def example_board_def js_or_def js_def)
  have found: "truthy example_board"
    by (simp add: example_board_def)
  have group: "target_group JUndef example_board = Inr (JStr (js ''g1''))"
    by (simp add: target_group_def example_board_def get_prop_opt_def js_def)
  have tg: "truthy (JStr (js ''g1''))"
    by (simp add: js_def)
  have cols: "column_roles example_board = Inr (?date, JUndef, JUndef)"
    by (simp add: column_roles_def array_find_def has_type_def example_board_def js_def)
  have fails: "[Inr (created_item ''101'' ''Call Bob''),
                Inl (Error (js ''Monday.com API Error: [{\"message\":\"Invalid item name\"}]'')),
                Inr (created_item ''103'' ''Send report'')] ! 1 =
               Inl (Error (js ''Monday.com API Error: [{\"message\":\"Invalid item name\"}]''))"
    by simp
  have others: "\<forall>j < length ?items. j \<noteq> 1 \<longrightarrow>
      (\<exists>c. [Inr (created_item ''101'' ''Call Bob''),
            Inl (Error (js ''Monday.com API Error: [{\"message\":\"Invalid item name\"}]'')),
            Inr (created_item ''103'' ''Send report'')] ! j = Inr c)"
    by (auto simp: less_Suc_eq numeral_3_eq_3)
  show ?thesis
    using batch_isolation [OF ai _ bi gi mt tb boards board found group tg cols
        example_outcomes [symmetric] _ fails others]
    by auto
qed











lemma createMondayItem_log:
  "createMondayItem pf ev tr b g n cv st = (r, st1) \<Longrightarrow>
   snd st1 = snd st @ [monday_call pf ev create_item_query (create_item_variables pf b g n cv)]"
  using mondayRequest_log [of pf ev tr create_item_query "create_item_variables pf b g n cv" st]
    data_field_state [of "js ''create_item''"
      "mondayRequest pf ev tr create_item_query (create_item_variables pf b g n cv) st"]
  by (simp add: createMondayItem_def) (simp add: create_item_variables_def)

lemma addItemUpdate_log:
  "addItemUpdate pf ev tr i b st = (r, st1) \<Longrightarrow>
   snd st1 = snd st @ [monday_call pf ev create_update_query (create_update_variables i b)]"
  using mondayRequest_log [of pf ev tr create_update_query "create_update_variables i b" st]
    data_field_state [of "js ''create_update''"
      "mondayRequest pf ev tr create_update_query (create_update_variables i b) st"]
  by (simp add: addItemUpdate_def) (simp add: create_update_variables_def)

























lemma mondayRequest_world:
  "fst (snd (mondayRequest pf ev tr query variables st)) =
     snd (tr (fst st) (monday_call pf ev query (if variables = JUndef then JObj [] else variables)))"
  by (cases st)
     (simp add: mondayRequest_def perform_def Let_def split: prod.splits reply.splits sum.splits)

lemma createMondayItem_world:
  "createMondayItem pf ev tr b g n cv st = (r, st1) \<Longrightarrow>
   fst st1 = snd (tr (fst st) (monday_call pf ev create_item_query (create_item_variables pf b g n cv)))"
  using mondayRequest_world [of pf ev tr create_item_query "create_item_variables pf b g n cv" st]
    data_field_state [of "js ''create_item''"
      "mondayRequest pf ev tr create_item_query (create_item_variables pf b g n cv) st"]
  by (simp add: createMondayItem_def) (simp add: create_item_variables_def)

lemma addItemUpdate_world:
  "addItemUpdate pf ev tr i b st = (r, st1) \<Longrightarrow>
   fst st1 = snd (tr (fst st) (monday_call pf ev create_update_query (create_update_variables i b)))"
  using mondayRequest_world [of pf ev tr create_update_query "create_update_variables i b" st]
    data_field_state [of "js ''create_update''"
      "mondayRequest pf ev tr create_update_query (create_update_variables i b) st"]
  by (simp add: addItemUpdate_def) (simp add: create_update_variables_def)

text \<open>
  C10. An item whose task was created and whose note could not be attached is recorded
  as a failure: the loop adds the failure record of the item to \<^verbatim>\<open>errors\<close> and nothing to
  \<^verbatim>\<open>results\<close>, and the calls made for the item are the create request, which was
  answered with the created task, and the update request, with nothing after them that
  would take the task back: the peer is left in the state it reached by handling the
  create request and then the update request. And an item is added to \<^verbatim>\<open>results\<close> only if both its create
  request and its update request succeeded.
\<close>

theorem note_failure_recorded:
  "(column_values pf dateColumn item = Inr columnValues \<and>
    get_prop item (js ''task_title'') = Inr task_title \<and>
    createMondayItem pf ev tr tb tg task_title columnValues st = (Inr created, st1) \<and>
    get_prop created (js ''id'') = Inr created_id \<and>
    context_note mt item = Inr contextNote \<and>
    addItemUpdate pf ev tr created_id (JStr contextNote) st1 = (Inl e, st2) \<longrightarrow>
      create_loop (process_item pf ev tr tb tg dateColumn mt) [item] results errors st =
        ((results, errors @ [failure_record e item]), st2)
    \<and> snd st2 =
        snd st @
        [monday_call pf ev create_item_query
           (create_item_variables pf tb tg task_title columnValues),
         monday_call pf ev create_update_query
           (create_update_variables created_id (JStr contextNote))]
    \<and> fst st1 =
        snd (tr (fst st)
               (monday_call pf ev create_item_query
                  (create_item_variables pf tb tg task_title columnValues)))
    \<and> fst st2 =
        snd (tr (fst st1)
               (monday_call pf ev create_update_query
                  (create_update_variables created_id (JStr contextNote)))))
   \<and> (\<forall>results' errors' st'.
        create_loop (process_item pf ev tr tb tg dateColumn mt) [item] results errors st =
          ((results', errors'), st') \<and> results' \<noteq> results \<longrightarrow>
        (\<exists>cv title c s1 cid n update.
           column_values pf dateColumn item = Inr cv \<and>
           get_prop item (js ''task_title'') = Inr title \<and>
           createMondayItem pf ev tr tb tg title cv st = (Inr c, s1) \<and>
           get_prop c (js ''id'') = Inr cid \<and>
           context_note mt item = Inr n \<and>
           addItemUpdate pf ev tr cid (JStr n) s1 = (Inr update, st') \<and>
           results' = results @ [success_record c item] \<and> errors' = errors))"
proof (intro conjI allI impI)
  assume h: "column_values pf dateColumn item = Inr columnValues \<and>
      get_prop item (js ''task_title'') = Inr task_title \<and>
      createMondayItem pf ev tr tb tg task_title columnValues st = (Inr created, st1) \<and>
      get_prop created (js ''id'') = Inr created_id \<and>
      context_note mt item = Inr contextNote \<and>
      addItemUpdate pf ev tr created_id (JStr contextNote) st1 = (Inl e, st2)"
  then have c: "createMondayItem pf ev tr tb tg task_title columnValues st = (Inr created, st1)"
    and u: "addItemUpdate pf ev tr created_id (JStr contextNote) st1 = (Inl e, st2)"
    by simp_all
  have "process_item pf ev tr tb tg dateColumn mt item st = (Inl e, st2)"
    using h by (simp add: process_item_def)
  then show "create_loop (process_item pf ev tr tb tg dateColumn mt) [item] results errors st =
          ((results, errors @ [failure_record e item]), st2)"
    by simp
  show "snd st2 =
          snd st @
          [monday_call pf ev create_item_query
             (create_item_variables pf tb tg task_title columnValues),
           monday_call pf ev create_update_query
             (create_update_variables created_id (JStr contextNote))]"
    using createMondayItem_log [OF c] addItemUpdate_log [OF u] by simp
  show "fst st1 =
          snd (tr (fst st)
                 (monday_call pf ev create_item_query
                    (create_item_variables pf tb tg task_title columnValues)))"
    by (rule createMondayItem_world [OF c])
  show "fst st2 =
          snd (tr (fst st1)
                 (monday_call pf ev create_update_query
                    (create_update_variables created_id (JStr contextNote))))"
    by (rule addItemUpdate_world [OF u])
next
  fix results' errors' st'
  assume h: "create_loop (process_item pf ev tr tb tg dateColumn mt) [item] results errors st =
          ((results', errors'), st') \<and> results' \<noteq> results"
  obtain r s where p: "process_item pf ev tr tb tg dateColumn mt item st = (r, s)"
    by (cases "process_item pf ev tr tb tg dateColumn mt item st")
  from h p obtain c where r: "r = Inr c"
    and res: "results' = results @ [success_record c item]" "errors' = errors" "s = st'"
    by (cases r) auto
  from p r have "\<exists>cv title s1 cid n update.
           column_values pf dateColumn item = Inr cv \<and>
           get_prop item (js ''task_title'') = Inr title \<and>
           createMondayItem pf ev tr tb tg title cv st = (Inr c, s1) \<and>
           get_prop c (js ''id'') = Inr cid \<and>
           context_note mt item = Inr n \<and>
           addItemUpdate pf ev tr cid (JStr n) s1 = (Inr update, s)"
    by (auto simp: process_item_def bind_eff_def split: sum.splits prod.splits; blast)
  then show "\<exists>cv title c s1 cid n update.
           column_values pf dateColumn item = Inr cv \<and>
           get_prop item (js ''task_title'') = Inr title \<and>
           createMondayItem pf ev tr tb tg title cv st = (Inr c, s1) \<and>
           get_prop c (js ''id'') = Inr cid \<and>
           context_note mt item = Inr n \<and>
           addItemUpdate pf ev tr cid (JStr n) s1 = (Inr update, st') \<and>
           results' = results @ [success_record c item] \<and> errors' = errors"
    using res by blast
qed

lemma context_note_call_bob:
  "context_note JUndef call_bob =
     Inr ([0xD83D, 0xDCDD] @
          js '' **From Meeting: Untitled**\<newline>\<newline>\<newline>\<newline>**Priority:** Medium\<newline>\<newline>\<newline>\<newline>\<newline>*Auto-created by Granola '' @
          [0x2192] @ js '' Monday Agent*'')"
  by (simp add: context_note_def call_bob_def labelled_def js_or_def js_def)

theorem note_failure_recorded_witness:
  \<open>create_loop
      (process_item example_platform example_env
         (scripted [created_reply ''101'' ''Call Bob'', refused_reply])
         (JStr (js ''B1'')) (JStr (js ''g1'')) JUndef JUndef)
      [call_bob] [] [] (0, []) =
    (([], [JObj [(js ''success'', JBool False),
                 (js ''error'',
                    JStr (js ''Monday.com API Error: [{"message":"Invalid item name"}]'')),
                 (js ''original'', call_bob)]]),
     (2, [monday_call example_platform example_env create_item_query
            (create_item_variables example_platform (JStr (js ''B1'')) (JStr (js ''g1''))
               (JStr (js ''Call Bob'')) (JObj [])),
          monday_call example_platform example_env create_update_query
            (create_update_variables (JStr (js ''101''))
               (JStr ([0xD83D, 0xDCDD] @
                      js '' **From Meeting: Untitled**\<newline>\<newline>\<newline>\<newline>**Priority:** Medium\<newline>\<newline>\<newline>\<newline>\<newline>*Auto-created by Granola '' @
                      [0x2192] @ js '' Monday Agent*'')))]))\<close>
proof -
  let ?tr = "scripted [created_reply ''101'' ''Call Bob'', refused_reply]"
  let ?c1 = "monday_call example_platform example_env create_item_query
            (create_item_variables example_platform (JStr (js ''B1'')) (JStr (js ''g1''))
               (JStr (js ''Call Bob'')) (JObj []))"
  let ?n = "[0xD83D, 0xDCDD] @
          js '' **From Meeting: Untitled**\<newline>\<newline>\<newline>\<newline>**Priority:** Medium\<newline>\<newline>\<newline>\<newline>\<newline>*Auto-created by Granola '' @
          [0x2192] @ js '' Monday Agent*''"
  let ?c2 = "monday_call example_platform example_env create_update_query
            (create_update_variables (JStr (js ''101'')) (JStr ?n))"
  have cv: "column_values example_platform JUndef call_bob = Inr (JObj [])"
    by (simp add: column_values_def)
  have title: "get_prop call_bob (js ''task_title'') = Inr (JStr (js ''Call Bob''))"
    by (simp add: call_bob_def js_def)
  have create: "createMondayItem example_platform example_env ?tr (JStr (js ''B1''))
                  (JStr (js ''g1'')) (JStr (js ''Call Bob'')) (JObj []) (0, []) =
                (Inr (created_item ''101'' ''Call Bob''), (1, [?c1]))"
    by (simp add: createMondayItem_def data_field_def mondayRequest_def scripted_perform
          created_reply_def create_item_variables_def js_def)
  have cid: "get_prop (created_item ''101'' ''Call Bob'') (js ''id'') = Inr (JStr (js ''101''))"
    by (simp add: created_item_def js_def)
  have update: "addItemUpdate example_platform example_env ?tr (JStr (js ''101'')) (JStr ?n)
                  (1, [?c1]) =
                (Inl (Error (js ''Monday.com API Error: '' @
                             stringify (JArr [JObj [(js ''message'', JStr (js ''Invalid item name''))]]))),
                 (2, [?c1, ?c2]))"
    by (simp add: addItemUpdate_def data_field_def mondayRequest_def scripted_perform
          refused_reply_def create_update_variables_def example_platform_def js_def)
  have msg: \<open>js ''Monday.com API Error: '' @
             stringify (JArr [JObj [(js ''message'', JStr (js ''Invalid item name''))]]) =
             js ''Monday.com API Error: [{"message":"Invalid item name"}]''\<close>
    by (simp add: quote_def quote_unit_def js_def)
  have r: "create_loop (process_item example_platform example_env ?tr (JStr (js ''B1''))
                          (JStr (js ''g1'')) JUndef JUndef) [call_bob] [] [] (0, []) =
           (([], [] @ [failure_record
                         (Error (js ''Monday.com API Error: '' @
                                 stringify (JArr [JObj [(js ''message'',
                                                          JStr (js ''Invalid item name''))]])))
                         call_bob]),
            (2, [?c1, ?c2]))"
    using note_failure_recorded [of example_platform JUndef call_bob "JObj []"
        "JStr (js ''Call Bob'')" example_env ?tr "JStr (js ''B1'')" "JStr (js ''g1'')"
        "(0, [])" "created_item ''101'' ''Call Bob''" "(1, [?c1])" "JStr (js ''101'')" JUndef ?n
        "Error (js ''Monday.com API Error: '' @
                stringify (JArr [JObj [(js ''message'', JStr (js ''Invalid item name''))]]))"
        "(2, [?c1, ?c2])" "[]" "[]"]
      cv title create cid update context_note_call_bob
    by blast
  show ?thesis
    unfolding r by (simp only: failure_record_def message.simps msg append_Nil)
qed

lemma extractActionItems_logD:
  "extractActionItems pf tr mn mt st = (r, st1) \<Longrightarrow>
   snd st1 = snd st @ [MessagesCreate (extraction_params pf mn (if mt = JUndef then JStr [] else mt))]"
  using extractActionItems_log [of pf tr mn mt st] by simp

lemma notes_long: "50 \<le> length (trim s) \<Longrightarrow> notes_too_short (JStr s) = Inr False"
  by (auto simp: notes_too_short_def trim_def)

lemma long_notes_length: "50 \<le> length (trim long_notes)"
  by (simp add: long_notes_def trim_def is_space_def js_def)

lemma json_text_no_items: "json_text no_items_text = no_items_text"
  by (simp add: json_text_def no_items_text_def fence_def tag_then_capture_def trim_def
        is_space_def js_def)

lemma json_text_fenced_item:
  "json_text (js ''```json\<newline>'' @ one_item_text @ js ''\<newline>```'') = one_item_text"
  by (simp add: json_text_def one_item_text_def fence_def tag_then_capture_def trim_def
        is_space_def js_def)

text \<open>
  C8. Take a request whose notes pass the length check and whose extraction returns
  \<open>extraction\<close>. If \<^verbatim>\<open>extraction.action_items\<close> is the empty array (or is falsy), the response
  is a 200 with \<^verbatim>\<open>success: true\<close>, the summary of the extraction, the empty list of items
  and the message that none was found; the only call made is the one to the language
  model. Nothing is assumed of \<^verbatim>\<open>autoCreate\<close>.
\<close>

theorem empty_extraction_short_circuit:
  assumes mn: "get_prop reqbody (js ''meetingNotes'') = Inr (JStr s)"
      and len: "50 \<le> length (trim s)"
      and mt: "get_prop reqbody (js ''meetingTitle'') = Inr meetingTitle"
      and ex: "extractActionItems pf tr (JStr s) meetingTitle st = (Inr extraction, st1)"
      and items: "get_prop extraction (js ''action_items'') = Inr action_items"
      and none: "action_items = JArr [] \<or> \<not> truthy action_items"
      and summary: "get_prop extraction (js ''meeting_summary'') = Inr meeting_summary"
  shows "process_meeting_route pf ev tr reqbody st =
           (\<lparr>status = 200,
             body = JObj [(js ''success'', JBool True),
                          (js ''meeting_summary'', meeting_summary),
                          (js ''action_items'', JArr []),
                          (js ''message'',
                             JStr (js ''No action items found in the meeting notes''))]\<rparr>,
            st1)
       \<and> snd st1 =
           snd st @
           [MessagesCreate
              (extraction_params pf (JStr s)
                 (if meetingTitle = JUndef then JStr [] else meetingTitle))]"
proof -
  obtain bi where bi: "destructure reqbody (js ''boardId'') = Inr bi"
    using destructure_get_prop [OF mn] by blast
  obtain gi where gi: "destructure reqbody (js ''groupId'') = Inr gi"
    using destructure_get_prop [OF mn] by blast
  obtain ac where ac: "destructure reqbody (js ''autoCreate'') = Inr ac"
    using destructure_get_prop [OF mn] by blast
  have no: "no_extracted_items extraction = Inr True"
    using none by (auto simp: no_extracted_items_def items)
  have "process_meeting_route pf ev tr reqbody st =
          (ok [(js ''success'', JBool True),
               (js ''meeting_summary'', meeting_summary),
               (js ''action_items'', JArr []),
               (js ''message'', JStr (js ''No action items found in the meeting notes''))], st1)"
    by (simp add: process_meeting_route_def destructure_same [OF mn] destructure_same [OF mt]
          bi gi ac notes_long [OF len] ex no summary Let_def)
  then show ?thesis
    using extractActionItems_logD [OF ex] by (simp add: ok_def)
qed

theorem empty_extraction_short_circuit_witness:
  "process_meeting_route example_platform example_env (scripted [text_reply no_items_text])
      (JObj [(js ''meetingNotes'', JStr long_notes), (js ''autoCreate'', JBool True)]) (0, []) =
     (\<lparr>status = 200,
       body = JObj [(js ''success'', JBool True),
                    (js ''meeting_summary'', JStr (js ''```'')),
                    (js ''action_items'', JArr []),
                    (js ''message'', JStr (js ''No action items found in the meeting notes''))]\<rparr>,
      (1, [MessagesCreate (extraction_params example_platform (JStr long_notes) (JStr []))]))"
proof -
  let ?req = "JObj [(js ''meetingNotes'', JStr long_notes), (js ''autoCreate'', JBool True)]"
  let ?st1 = "(1 :: nat, [MessagesCreate (extraction_params example_platform (JStr long_notes) (JStr []))])"
  have mn: "get_prop ?req (js ''meetingNotes'') = Inr (JStr long_notes)"
    and mt: "get_prop ?req (js ''meetingTitle'') = Inr JUndef"
    by (simp_all add: js_def)
  have ex: "extractActionItems example_platform (scripted [text_reply no_items_text])
              (JStr long_notes) JUndef (0, []) = (Inr summary_only, ?st1)"
    by (simp add: extractActionItems_def scripted_perform text_reply_def parse_content_def
          json_text_no_items example_platform_def example_parse_def)
       (simp add: js_def)
  have items: "get_prop summary_only (js ''action_items'') = Inr (JArr [])"
    and summary: "get_prop summary_only (js ''meeting_summary'') = Inr (JStr (js ''```''))"
    by (simp_all add: summary_only_def js_def)
  show ?thesis
    using empty_extraction_short_circuit [OF mn long_notes_length mt ex items _ summary,
        of example_env]
    by simp
qed

text \<open>
  C7. Take a request whose notes pass the length check, whose \<^verbatim>\<open>autoCreate\<close> is absent,
  \<^verbatim>\<open>false\<close> or another falsy value, and whose extraction returns a non-empty array of
  items. The response is a 200 with the summary and the extracted items, and the only
  call made is the one to the language model: no \<^verbatim>\<open>fetch\<close> is issued, so no create-item
  request, no update request and no request to \<^verbatim>\<open>/api/create-tasks\<close>.
\<close>

theorem review_checkpoint:
  assumes mn: "get_prop reqbody (js ''meetingNotes'') = Inr (JStr s)"
      and len: "50 \<le> length (trim s)"
      and mt: "get_prop reqbody (js ''meetingTitle'') = Inr meetingTitle"
      and ac: "get_prop reqbody (js ''autoCreate'') = Inr autoCreate"
      and off: "\<not> truthy autoCreate"
      and ex: "extractActionItems pf tr (JStr s) meetingTitle st = (Inr extraction, st1)"
      and items: "get_prop extraction (js ''action_items'') = Inr (JArr (a # as))"
      and summary: "get_prop extraction (js ''meeting_summary'') = Inr meeting_summary"
  shows "process_meeting_route pf ev tr reqbody st =
           (\<lparr>status = 200,
             body = JObj [(js ''success'', JBool True),
                          (js ''meeting_summary'', meeting_summary),
                          (js ''action_items'', JArr (a # as)),
                          (js ''message'',
                             JStr (js ''Found '' @ nat_digits (length (a # as)) @
                                   js '' action items. Review and confirm to create tasks.''))]\<rparr>,
            st1)
       \<and> snd st1 =
           snd st @
           [MessagesCreate
              (extraction_params pf (JStr s)
                 (if meetingTitle = JUndef then JStr [] else meetingTitle))]
       \<and> filter is_fetch (drop (length (snd st)) (snd st1)) = []"
proof -
  obtain bi where bi: "destructure reqbody (js ''boardId'') = Inr bi"
    using destructure_get_prop [OF mn] by blast
  obtain gi where gi: "destructure reqbody (js ''groupId'') = Inr gi"
    using destructure_get_prop [OF mn] by blast
  have some: "no_extracted_items extraction = Inr False"
    by (simp add: no_extracted_items_def items)
  have auto_off: "\<not> truthy (if autoCreate = JUndef then JBool False else autoCreate)"
    using off by simp
  have n: "nat (1 + int (length as)) = Suc (length as)"
    by simp
  have "process_meeting_route pf ev tr reqbody st =
          (ok [(js ''success'', JBool True),
               (js ''meeting_summary'', meeting_summary),
               (js ''action_items'', JArr (a # as)),
               (js ''message'',
                  JStr (js ''Found '' @ nat_digits (length (a # as)) @
                        js '' action items. Review and confirm to create tasks.''))], st1)"
    using auto_off
    by (simp add: process_meeting_route_def destructure_same [OF mn] destructure_same [OF mt]
          destructure_same [OF ac] bi gi notes_long [OF len] ex some summary items Let_def
          int_digits_def n del: truthy.simps)
  then show ?thesis
    using extractActionItems_logD [OF ex] by (simp add: ok_def)
qed

theorem review_checkpoint_witness:
  "process_meeting_route example_platform example_env
      (scripted [text_reply (js ''```json\<newline>'' @ one_item_text @ js ''\<newline>```'')])
      (JObj [(js ''meetingNotes'', JStr long_notes)]) (0, []) =
     (\<lparr>status = 200,
       body = JObj [(js ''success'', JBool True),
                    (js ''meeting_summary'', JStr (js ''Sync'')),
                    (js ''action_items'', JArr [call_bob]),
                    (js ''message'',
                       JStr (js ''Found 1 action items. Review and confirm to create tasks.''))]\<rparr>,
      (1, [MessagesCreate (extraction_params example_platform (JStr long_notes) (JStr []))]))"
proof -
  let ?req = "JObj [(js ''meetingNotes'', JStr long_notes)]"
  let ?tr = "scripted [text_reply (js ''```json\<newline>'' @ one_item_text @ js ''\<newline>```'')]"
  let ?st1 = "(1 :: nat, [MessagesCreate (extraction_params example_platform (JStr long_notes) (JStr []))])"
  have mn: "get_prop ?req (js ''meetingNotes'') = Inr (JStr long_notes)"
    and mt: "get_prop ?req (js ''meetingTitle'') = Inr JUndef"
    and ac: "get_prop ?req (js ''autoCreate'') = Inr JUndef"
    by (simp_all add: js_def)
  have ex: "extractActionItems example_platform ?tr (JStr long_notes) JUndef (0, []) =
              (Inr one_item_extraction, ?st1)"
    by (simp add: extractActionItems_def scripted_perform text_reply_def parse_content_def
          json_text_fenced_item example_platform_def example_parse_def)
       (simp add: js_def no_items_text_def one_item_text_def)
  have items: "get_prop one_item_extraction (js ''action_items'') = Inr (JArr (call_bob # []))"
    and summary: "get_prop one_item_extraction (js ''meeting_summary'') = Inr (JStr (js ''Sync''))"
    by (simp_all add: one_item_extraction_def js_def)
  have off: "\<not> truthy JUndef"
    by simp
  have one: "nat_digits (Suc 0) = [49]"
    by (simp add: nat_digits.simps digit_def)
  show ?thesis
    using review_checkpoint [OF mn long_notes_length mt ac off ex items summary, of example_env]
    by (simp add: js_def one)
qed

section \<open>Properties of the code fence\<close>

lemma str_includes_sublist: "str_includes s p \<longleftrightarrow> sublist p s"
  by (induction s) (auto simp: sublist_Cons_right)

lemma fence_units: "fence = [0x60, 0x60, 0x60]"
  by (simp add: fence_def js_def)

lemma not_space_backtick: "\<not> is_space 0x60"
  by (simp add: is_space_def)

lemma space_newline: "is_space 0x0A"
  by (simp add: is_space_def)

lemma lazy_until_fence_found:
  assumes "\<not> sublist fence u" and "u = [] \<or> last u \<noteq> 0x60"
  shows "lazy_until_fence (u @ fence) = Some u"
  using assms
proof (induction u)
  case Nil
  then show ?case by (simp add: fence_units)
next
  case (Cons c cs)
  have rest: "\<not> sublist fence cs"
    using Cons.prems(1) by (auto simp: sublist_Cons_right)
  have last: "cs = [] \<or> last cs \<noteq> 0x60"
    using Cons.prems(2) by (cases cs) auto
  have no: "\<not> prefix fence ((c # cs) @ fence)"
  proof
    assume p: "prefix fence ((c # cs) @ fence)"
    show False
    proof (cases cs)
      case Nil
      with p Cons.prems(2) show False by (simp add: fence_units)
    next
      case (Cons d ds)
      note cs = Cons
      show False
      proof (cases ds)
        case Nil
        with p cs Cons.prems(2) show False by (simp add: fence_units)
      next
        case (Cons e es)
        with p cs have "prefix fence (c # cs)" by (simp add: fence_units)
        then show False
          using Cons.prems(1) by (auto simp: sublist_Cons_right)
      qed
    qed
  qed
  show ?case
    using no Cons.IH [OF rest last] by simp
qed

lemma spaces_then_capture_greedy:
  "lazy_until_fence (dropWhile is_space s) = Some g \<Longrightarrow> spaces_then_capture s = Some g"
  by (induction s) auto

lemma sublist_snoc_newline:
  assumes "sublist fence (t @ [0x0A])"
  shows "sublist fence t"
proof -
  from assms obtain ps ss where eq: "t @ [0x0A] = ps @ fence @ ss"
    by (auto simp: sublist_def)
  show ?thesis
  proof (cases ss rule: rev_cases)
    case Nil
    with eq have "last (t @ [0x0A]) = last (ps @ fence)" by simp
    then show ?thesis by (simp add: fence_units)
  next
    case (snoc ss' x)
    with eq have "t = ps @ fence @ ss'"
      by (metis append_assoc butlast_snoc)
    then show ?thesis by auto
  qed
qed

lemma trim_dropWhile: "trim (dropWhile is_space s) = trim s"
  by (simp add: trim_def)

lemma trim_snoc_newline: "trim (t @ [0x0A]) = trim t"
proof (cases "\<forall>c \<in> set t. is_space c")
  case True
  then have a: "dropWhile is_space t = []" and b: "dropWhile is_space (t @ [0x0A]) = []"
    by (simp_all add: space_newline)
  show ?thesis by (simp only: trim_def a b)
next
  case False
  then have "dropWhile is_space (t @ [0x0A]) = dropWhile is_space t @ [0x0A]"
    by (auto simp: dropWhile_append1)
  then show ?thesis by (simp add: trim_def space_newline)
qed

lemma capture_of_wrapped:
  assumes "\<not> sublist fence t"
  shows "spaces_then_capture (0x0A # t @ 0x0A # fence) = Some (dropWhile is_space (t @ [0x0A]))"
proof -
  let ?u = "dropWhile is_space (t @ [0x0A])"
  have d: "dropWhile is_space (0x0A # t @ 0x0A # fence) = ?u @ fence"
    using dropWhile_append3 [of is_space "0x60" "t @ [0x0A]" "[0x60, 0x60]"]
    by (simp add: space_newline not_space_backtick fence_units)
  have "\<not> sublist fence (t @ [0x0A])"
    using assms sublist_snoc_newline by blast
  moreover have "sublist ?u (t @ [0x0A])"
    by simp
  ultimately have nf: "\<not> sublist fence ?u"
    using sublist_order.order_trans by blast
  have "suffix ?u (t @ [0x0A])"
    by (rule suffix_dropWhile)
  then obtain zs where zs: "t @ [0x0A] = zs @ ?u"
    by (auto simp: suffix_def)
  have l: "?u = [] \<or> last ?u \<noteq> 0x60"
  proof (cases "?u = []")
    case False
    then have "last ?u = last (zs @ ?u)" by simp
    also have "\<dots> = 0x0A" unfolding zs [symmetric] by simp
    finally show ?thesis by simp
  qed simp
  show ?thesis
    using spaces_then_capture_greedy [of "0x0A # t @ 0x0A # fence" ?u]
      lazy_until_fence_found [OF nf l] d
    by simp
qed

lemma capture_of_wrapped_units:
  "\<not> sublist fence t \<Longrightarrow>
   spaces_then_capture (0x0A # t @ [0x0A, 0x60, 0x60, 0x60]) =
     Some (dropWhile is_space (t @ [0x0A]))"
  using capture_of_wrapped [of t] by (simp add: fence_units)

text \<open>
  C2, as the code has it. For every text \<open>t\<close> that holds no triple backtick, the model
  outputs \<^verbatim>\<open>```json\n\<close>\<open>t\<close>\<^verbatim>\<open>\n```\<close> and \<^verbatim>\<open>```\n\<close>\<open>t\<close>\<^verbatim>\<open>\n```\<close> and the bare \<open>t\<close> hand the same
  text to \<^verbatim>\<open>JSON.parse\<close>, namely \<open>t\<close> trimmed, so the three are parsed to the same
  result whatever \<^verbatim>\<open>JSON.parse\<close> computes; the wrapper and its optional tag are removed,
  and an output without a triple backtick is parsed as it is (trimmed).
\<close>

theorem fence_stripping:
  assumes "\<not> str_includes t fence"
  shows "json_text (js ''```json\<newline>'' @ t @ js ''\<newline>```'') = trim t
       \<and> json_text (js ''```\<newline>'' @ t @ js ''\<newline>```'') = trim t
       \<and> json_text t = trim t
       \<and> parse_content pf (JStr (js ''```json\<newline>'' @ t @ js ''\<newline>```'')) =
           parse_content pf (JStr t)
       \<and> parse_content pf (JStr (js ''```\<newline>'' @ t @ js ''\<newline>```'')) =
           parse_content pf (JStr t)
       \<and> parse_content pf (JStr t) = JSON_parse pf (trim t)"
proof -
  have nf: "\<not> sublist fence t"
    using assms by (simp add: str_includes_sublist)
  note cap = capture_of_wrapped_units [OF nf]
  have tagged: "fence_match (js ''```json\<newline>'' @ t @ js ''\<newline>```'') =
                  Some (dropWhile is_space (t @ [0x0A]))"
    by (simp add: js_def fence_units tag_then_capture_def cap del: spaces_then_capture.simps)
  have plain: "fence_match (js ''```\<newline>'' @ t @ js ''\<newline>```'') =
                 Some (dropWhile is_space (t @ [0x0A]))"
    by (simp add: js_def fence_units tag_then_capture_def cap del: spaces_then_capture.simps)
  have inc1: "str_includes (js ''```json\<newline>'' @ t @ js ''\<newline>```'') fence"
    by (simp add: js_def fence_units)
  have inc2: "str_includes (js ''```\<newline>'' @ t @ js ''\<newline>```'') fence"
    by (simp add: js_def fence_units)
  have a: "json_text (js ''```json\<newline>'' @ t @ js ''\<newline>```'') = trim t"
    by (simp add: json_text_def inc1 tagged trim_dropWhile trim_snoc_newline)
  have b: "json_text (js ''```\<newline>'' @ t @ js ''\<newline>```'') = trim t"
    by (simp add: json_text_def inc2 plain trim_dropWhile trim_snoc_newline)
  have c: "json_text t = trim t"
    using assms by (simp add: json_text_def)
  show ?thesis
    by (simp add: parse_content_def a b c)
qed

theorem fence_stripping_witness:
  "json_text (js ''```json\<newline>'' @ one_item_text @ js ''\<newline>```'') = one_item_text
   \<and> parse_content example_platform
       (JStr (js ''```json\<newline>'' @ one_item_text @ js ''\<newline>```'')) =
     Inr one_item_extraction
   \<and> parse_content example_platform (JStr one_item_text) = Inr one_item_extraction"
proof -
  have no: "\<not> str_includes one_item_text fence"
    by (simp add: one_item_text_def fence_def js_def)
  have t: "trim one_item_text = one_item_text"
    by (simp add: one_item_text_def trim_def is_space_def js_def)
  have p: "JSON_parse example_platform one_item_text = Inr one_item_extraction"
    by (simp add: example_platform_def example_parse_def)
       (simp add: no_items_text_def one_item_text_def js_def)
  show ?thesis
    using fence_stripping [OF no, of example_platform] by (simp add: t p)
qed

text \<open>
  A payload that holds a triple backtick inside a string: the capture of the wrapped
  output stops at that backtick, \<^verbatim>\<open>JSON.parse\<close> receives the cut text \<^verbatim>\<open>{"meeting_summary":"\<close>
  and throws, while the bare output, in which the pattern finds no closing fence, is
  parsed whole.
\<close>

theorem fence_in_payload_counterexample:
  \<open>json_text (js ''```json\<newline>'' @ no_items_text @ js ''\<newline>```'') = js ''{"meeting_summary":"''
   \<and> parse_content example_platform
       (JStr (js ''```json\<newline>'' @ no_items_text @ js ''\<newline>```'')) =
     Inl (SyntaxError (js ''Unexpected end of JSON input''))
   \<and> json_text no_items_text = no_items_text
   \<and> parse_content example_platform (JStr no_items_text) = Inr summary_only\<close>
proof -
  have a: \<open>json_text (js ''```json\<newline>'' @ no_items_text @ js ''\<newline>```'') =
             js ''{"meeting_summary":"''\<close>
    by (simp add: json_text_def no_items_text_def fence_def tag_then_capture_def trim_def
          is_space_def js_def)
  have b: "json_text no_items_text = no_items_text"
    by (simp add: json_text_def no_items_text_def fence_def tag_then_capture_def trim_def
          is_space_def js_def)
  have c: \<open>example_parse (js ''{"meeting_summary":"'') =
             Inl (SyntaxError (js ''Unexpected end of JSON input''))\<close>
    by (simp add: example_parse_def no_items_text_def one_item_text_def js_def)
  have d: "example_parse no_items_text = Inr summary_only"
    by (simp add: example_parse_def)
  show ?thesis
    by (simp add: parse_content_def a b example_platform_def c d)
qed

end
